theory Spec2Isabelle
  imports Complex_Main "HOL-Library.Word" "HOL-Library.Sublist"
begin

unbundle bit_operations_syntax

section \<open>Deterministic noise core (src/noise.js)\<close>

text \<open>
  JavaScript numbers are IEEE doubles. The lattice hash works on integer-valued doubles
  only, so its arithmetic is modelled exactly: the product or sum of two integer-valued
  doubles is the exact integer result rounded to a 53-bit significand (round to nearest,
  ties to even). All magnitudes stay far below the overflow threshold of a double.
  The bitwise operators convert their operands to 32-bit integers first.
  The interpolation and the octave sums are read twice. This section reads them in exact
  arithmetic, on reals without rounding, with a zero divisor as a case of its own; the
  statements about the easing flag and about the linearity in \<open>scale\<close> are made of
  this reading. The next section reads them on doubles, with rounding, overflow,
  infinities and \<open>NaN\<close>; the statement about the sign of the result is made of that
  one.
\<close>

function excess_bits :: "nat \<Rightarrow> nat" where
  "excess_bits a = (if a < 2 ^ 53 then 0 else Suc (excess_bits (a div 2)))"
  by pat_completeness auto
termination
  by (relation "measure (\<lambda>a. a)") auto

declare excess_bits.simps [simp del]

definition round_double :: "int \<Rightarrow> int" where
  "round_double v =
     (let a = nat \<bar>v\<bar>; e = excess_bits a
      in if e = 0 then v
         else let q = a div 2 ^ e; r = a mod 2 ^ e; h = 2 ^ (e - 1);
                  q' = (if r > h \<or> (r = h \<and> odd q) then q + 1 else q)
              in sgn v * int (q' * 2 ^ e))"

definition js_mul :: "int \<Rightarrow> int \<Rightarrow> int" where
  "js_mul a b = round_double (a * b)"

definition js_add :: "int \<Rightarrow> int \<Rightarrow> int" where
  "js_add a b = round_double (a + b)"

definition to_int32 :: "int \<Rightarrow> 32 word" where
  "to_int32 v = word_of_int v"

definition NOISE_FLAG_DEFAULTS :: int where "NOISE_FLAG_DEFAULTS = 1"
definition NOISE_FLAG_EASED :: int where "NOISE_FLAG_EASED = 2"
definition NOISE_FLAG_ABSVALUE :: int where "NOISE_FLAG_ABSVALUE = 4"

definition NOISE_MAGIC_X :: int where "NOISE_MAGIC_X = 1619"
definition NOISE_MAGIC_Y :: int where "NOISE_MAGIC_Y = 31337"
definition NOISE_MAGIC_Z :: int where "NOISE_MAGIC_Z = 52591"
definition NOISE_MAGIC_SEED :: int where "NOISE_MAGIC_SEED = 1013"

text \<open>
  The two scrambling lines shared by \<open>noise2d\<close> and \<open>noise3d\<close>:
  \<^verbatim>\<open>n = (n >> 13) ^ n; n = (n * (n * n * 60493 + 19990303) + 1376312589) & 0x7fffffff\<close>.
  The shift and the xor are 32-bit operations; the polynomial is evaluated on doubles.
\<close>

definition noise_mix :: "32 word \<Rightarrow> 32 word" where
  "noise_mix n0 =
     (let n = sint (signed_drop_bit 13 n0 XOR n0)
      in to_int32 (js_add (js_mul n (js_add (js_mul (js_mul n n) 60493) 19990303)) 1376312589)
           AND 0x7fffffff)"

definition noise2d :: "real \<Rightarrow> real \<Rightarrow> int \<Rightarrow> real" where
  "noise2d x y seed =
     (let x = \<lfloor>x\<rfloor>; y = \<lfloor>y\<rfloor>;
          n = to_int32 (js_add (js_add (js_mul NOISE_MAGIC_X x) (js_mul NOISE_MAGIC_Y y))
                               (js_mul NOISE_MAGIC_SEED seed)) AND 0x7fffffff
      in 1 - real_of_int (sint (noise_mix n)) / 0x40000000)"

definition noise3d :: "real \<Rightarrow> real \<Rightarrow> real \<Rightarrow> int \<Rightarrow> real" where
  "noise3d x y z seed =
     (let x = \<lfloor>x\<rfloor>; y = \<lfloor>y\<rfloor>; z = \<lfloor>z\<rfloor>;
          n = to_int32 (js_add (js_add (js_add (js_mul NOISE_MAGIC_X x) (js_mul NOISE_MAGIC_Y y))
                                       (js_mul NOISE_MAGIC_Z z))
                               (js_mul NOISE_MAGIC_SEED seed)) AND 0x7fffffff
      in 1 - real_of_int (sint (noise_mix n)) / 0x40000000)"

text \<open>
  The lattice hash as the specification words it: the same formula in 32-bit integer
  arithmetic that wraps around at every addition and multiplication.
\<close>

definition latticeHash_mix :: "32 word \<Rightarrow> 32 word" where
  "latticeHash_mix n0 =
     (let n = signed_drop_bit 13 n0 XOR n0
      in (n * (n * n * 60493 + 19990303) + 1376312589) AND 0x7fffffff)"

definition latticeHash2D :: "int \<Rightarrow> int \<Rightarrow> int \<Rightarrow> real" where
  "latticeHash2D x y seed =
     (let n = (1619 * word_of_int x + 31337 * word_of_int y + 1013 * word_of_int seed)
                AND 0x7fffffff
      in 1 - real_of_int (sint (latticeHash_mix n)) / 2 ^ 30)"

definition latticeHash3D :: "int \<Rightarrow> int \<Rightarrow> int \<Rightarrow> int \<Rightarrow> real" where
  "latticeHash3D x y z seed =
     (let n = (1619 * word_of_int x + 31337 * word_of_int y + 52591 * word_of_int z
                 + 1013 * word_of_int seed) AND 0x7fffffff
      in 1 - real_of_int (sint (latticeHash_mix n)) / 2 ^ 30)"

definition linearInterpolation :: "real \<Rightarrow> real \<Rightarrow> real \<Rightarrow> real" where
  "linearInterpolation v0 v1 t = v0 + (v1 - v0) * t"

definition easeCurve :: "real \<Rightarrow> real" where
  "easeCurve t = t * t * t * (t * (6 * t - 15) + 10)"

definition biLinearInterpolation ::
  "real \<Rightarrow> real \<Rightarrow> real \<Rightarrow> real \<Rightarrow> real \<Rightarrow> real \<Rightarrow> bool \<Rightarrow> real" where
  "biLinearInterpolation v00 v10 v01 v11 x y eased =
     (let x = (if eased then easeCurve x else x);
          y = (if eased then easeCurve y else y);
          u = linearInterpolation v00 v10 x;
          v = linearInterpolation v01 v11 x
      in linearInterpolation u v y)"

definition triLinearInterpolation ::
  "real \<Rightarrow> real \<Rightarrow> real \<Rightarrow> real \<Rightarrow> real \<Rightarrow> real \<Rightarrow> real \<Rightarrow> real
     \<Rightarrow> real \<Rightarrow> real \<Rightarrow> real \<Rightarrow> bool \<Rightarrow> real" where
  "triLinearInterpolation v000 v100 v010 v110 v001 v101 v011 v111 x y z eased =
     (let x = (if eased then easeCurve x else x);
          y = (if eased then easeCurve y else y);
          z = (if eased then easeCurve z else z);
          u = biLinearInterpolation v000 v100 v010 v110 x y False;
          v = biLinearInterpolation v001 v101 v011 v111 x y False
      in linearInterpolation u v z)"

definition noise2d_gradient :: "real \<Rightarrow> real \<Rightarrow> int \<Rightarrow> bool \<Rightarrow> real" where
  "noise2d_gradient x y seed eased =
     (let x0 = \<lfloor>x\<rfloor>; y0 = \<lfloor>y\<rfloor>;
          xl = x - of_int x0; yl = y - of_int y0;
          v00 = noise2d (of_int x0) (of_int y0) seed;
          v10 = noise2d (of_int (x0 + 1)) (of_int y0) seed;
          v01 = noise2d (of_int x0) (of_int (y0 + 1)) seed;
          v11 = noise2d (of_int (x0 + 1)) (of_int (y0 + 1)) seed
      in biLinearInterpolation v00 v10 v01 v11 xl yl eased)"

definition noise3d_gradient :: "real \<Rightarrow> real \<Rightarrow> real \<Rightarrow> int \<Rightarrow> bool \<Rightarrow> real" where
  "noise3d_gradient x y z seed eased =
     (let x0 = \<lfloor>x\<rfloor>; y0 = \<lfloor>y\<rfloor>; z0 = \<lfloor>z\<rfloor>;
          xl = x - of_int x0; yl = y - of_int y0; zl = z - of_int z0;
          v000 = noise3d (of_int x0) (of_int y0) (of_int z0) seed;
          v100 = noise3d (of_int (x0 + 1)) (of_int y0) (of_int z0) seed;
          v010 = noise3d (of_int x0) (of_int (y0 + 1)) (of_int z0) seed;
          v110 = noise3d (of_int (x0 + 1)) (of_int (y0 + 1)) (of_int z0) seed;
          v001 = noise3d (of_int x0) (of_int y0) (of_int (z0 + 1)) seed;
          v101 = noise3d (of_int (x0 + 1)) (of_int y0) (of_int (z0 + 1)) seed;
          v011 = noise3d (of_int x0) (of_int (y0 + 1)) (of_int (z0 + 1)) seed;
          v111 = noise3d (of_int (x0 + 1)) (of_int (y0 + 1)) (of_int (z0 + 1)) seed
      in triLinearInterpolation v000 v100 v010 v110 v001 v101 v011 v111 xl yl zl eased)"

text \<open>
  The parameter record \<open>np\<close> of the fractal noise. \<open>spread\<close> is flattened into its
  three components; \<open>octaves\<close>, \<open>seed\<close> and \<open>flags\<close> are integers.
\<close>

record noise_params =
  np_offset :: real
  np_scale :: real
  np_spread_x :: real
  np_spread_y :: real
  np_spread_z :: real
  np_seed :: int
  np_octaves :: int
  np_persist :: real
  np_lacunarity :: real
  np_flags :: int

text \<open>
  The octave loop \<^verbatim>\<open>for (let i = 0; i < np.octaves; i++)\<close> with its loop variables
  \<open>i\<close>, \<open>a\<close>, \<open>f\<close>, \<open>g\<close>; the value of the loop is the final \<open>a\<close>.
\<close>

function octaves2D ::
  "noise_params \<Rightarrow> real \<Rightarrow> real \<Rightarrow> int \<Rightarrow> int \<Rightarrow> real \<Rightarrow> real \<Rightarrow> real \<Rightarrow> real" where
  "octaves2D np x y seed i a f g =
     (if i < np_octaves np then
        let noiseval = noise2d_gradient (x * f) (y * f) (seed + i)
                         (np_flags np AND (NOISE_FLAG_DEFAULTS OR NOISE_FLAG_EASED) \<noteq> 0);
            noiseval = (if np_flags np AND NOISE_FLAG_ABSVALUE \<noteq> 0 then \<bar>noiseval\<bar>
                        else noiseval)
        in octaves2D np x y seed (i + 1) (a + g * noiseval)
             (f * np_lacunarity np) (g * np_persist np)
      else a)"
  by pat_completeness auto
termination
  by (relation "measure (\<lambda>(np, x, y, seed, i, a, f, g). nat (np_octaves np - i))") auto

declare octaves2D.simps [simp del]

text \<open>
  The result of the fractal noise in exact arithmetic is \<open>Some\<close> number, or \<open>None\<close>
  for the \<open>NaN\<close> of a zero spread.
  A zero \<open>spread\<close> makes the divided coordinate infinite or \<open>NaN\<close>; the fractional
  offset \<open>x - Math.floor(x)\<close> is then \<open>NaN\<close>, and so are every interpolated sample
  and the sum as soon as one octave runs. Without an octave the sum is \<open>0\<close> and the
  result is \<open>offset\<close>. The \<open>NaN\<close> that overflowing doubles produce with
  non-zero spreads is no part of this reading: \<open>NoisePerlin2D_d\<close> and
  \<open>NoisePerlin3D_d\<close> below have it.
\<close>

definition NoisePerlin2D :: "noise_params \<Rightarrow> real \<Rightarrow> real \<Rightarrow> int \<Rightarrow> real option" where
  "NoisePerlin2D np x y seed =
     (if np_spread_x np = 0 \<or> np_spread_y np = 0 then
        (if 0 < np_octaves np then None else Some (np_offset np))
      else
        let x = x / np_spread_x np;
            y = y / np_spread_y np;
            seed = seed + np_seed np;
            a = octaves2D np x y seed 0 0 1 1
        in Some (np_offset np + a * np_scale np))"

function octaves3D ::
  "noise_params \<Rightarrow> real \<Rightarrow> real \<Rightarrow> real \<Rightarrow> int \<Rightarrow> int \<Rightarrow> real \<Rightarrow> real \<Rightarrow> real \<Rightarrow> real" where
  "octaves3D np x y z seed i a f g =
     (if i < np_octaves np then
        let noiseval = noise3d_gradient (x * f) (y * f) (z * f) (seed + i)
                         (np_flags np AND NOISE_FLAG_EASED \<noteq> 0);
            noiseval = (if np_flags np AND NOISE_FLAG_ABSVALUE \<noteq> 0 then \<bar>noiseval\<bar>
                        else noiseval)
        in octaves3D np x y z seed (i + 1) (a + g * noiseval)
             (f * np_lacunarity np) (g * np_persist np)
      else a)"
  by pat_completeness auto
termination
  by (relation "measure (\<lambda>(np, x, y, z, seed, i, a, f, g). nat (np_octaves np - i))") auto

declare octaves3D.simps [simp del]

definition NoisePerlin3D :: "noise_params \<Rightarrow> real \<Rightarrow> real \<Rightarrow> real \<Rightarrow> int \<Rightarrow> real option" where
  "NoisePerlin3D np x y z seed =
     (if np_spread_x np = 0 \<or> np_spread_y np = 0 \<or> np_spread_z np = 0 then
        (if 0 < np_octaves np then None else Some (np_offset np))
      else
        let x = x / np_spread_x np;
            y = y / np_spread_y np;
            z = z / np_spread_z np;
            seed = seed + np_seed np;
            a = octaves3D np x y z seed 0 0 1 1
        in Some (np_offset np + a * np_scale np))"

text \<open>
  The octave sum as the specification words it: layer \<open>j\<close> samples the gradient noise
  at frequency \<open>lacunarity^j\<close> with seed \<open>seed + j\<close> and weighs it with
  \<open>persist^j\<close>, taking the absolute value of the sample under the ABSVALUE flag.
  \<open>eased\<close> is the easing switch handed to every gradient-noise call.
\<close>

definition octave_sum2D :: "bool \<Rightarrow> noise_params \<Rightarrow> real \<Rightarrow> real \<Rightarrow> int \<Rightarrow> real" where
  "octave_sum2D eased np x y seed =
     (\<Sum>j<nat (np_octaves np).
        np_persist np ^ j *
          (let v = noise2d_gradient (x * np_lacunarity np ^ j) (y * np_lacunarity np ^ j)
                     (seed + int j) eased
           in if np_flags np AND NOISE_FLAG_ABSVALUE \<noteq> 0 then \<bar>v\<bar> else v))"

definition octave_sum3D ::
  "bool \<Rightarrow> noise_params \<Rightarrow> real \<Rightarrow> real \<Rightarrow> real \<Rightarrow> int \<Rightarrow> real" where
  "octave_sum3D eased np x y z seed =
     (\<Sum>j<nat (np_octaves np).
        np_persist np ^ j *
          (let v = noise3d_gradient (x * np_lacunarity np ^ j) (y * np_lacunarity np ^ j)
                     (z * np_lacunarity np ^ j) (seed + int j) eased
           in if np_flags np AND NOISE_FLAG_ABSVALUE \<noteq> 0 then \<bar>v\<bar> else v))"

text \<open>
  \<open>mandelbrot\<close>: \<^verbatim>\<open>for (let i = 0; i <= steps; i++)\<close>, returning \<open>i\<close> at the first
  escape and \<open>steps\<close> when the loop runs out.
\<close>

function mandelbrot_loop :: "real \<Rightarrow> real \<Rightarrow> int \<Rightarrow> int \<Rightarrow> real \<Rightarrow> real \<Rightarrow> int" where
  "mandelbrot_loop x z steps i a b =
     (if i \<le> steps then
        let old_a = a;
            a = (a * a - b * b) + x;
            b = 2 * old_a * b + z
        in if a * a + b * b > 20 then i
           else mandelbrot_loop x z steps (i + 1) a b
      else steps)"
  by pat_completeness auto
termination
  by (relation "measure (\<lambda>(x, z, steps, i, a, b). nat (steps + 1 - i))") auto

declare mandelbrot_loop.simps [simp del]

definition mandelbrot :: "real \<Rightarrow> real \<Rightarrow> int \<Rightarrow> int" where
  "mandelbrot x z steps = mandelbrot_loop x z steps 0 0 0"


section \<open>The fractal noise on IEEE doubles\<close>

text \<open>
  A second reading of \<open>noise.js\<close>, on the numbers JavaScript computes with. A double is
  a finite real, the negative zero, an infinity or \<open>NaN\<close>; \<open>Fin 0\<close> is the positive
  zero. Every arithmetic operation computes the exact result and rounds it to the nearest
  double, ties to the even significand; it overflows to an infinity, underflows to a zero
  and propagates \<open>NaN\<close>.
\<close>

datatype double = Fin real | NegZero | PosInf | NegInf | NotANumber

text \<open>
  \<open>Fin r\<close> is meant for the reals \<open>r\<close> that a double holds; \<open>to_double\<close> below rounds
  to them. No statement of this theory needs that restriction.
\<close>

text \<open>
  \<open>binade a 0\<close> is the exponent \<open>e\<close> of the binade of \<open>a > 0\<close>:
  \<open>2^e \<le> a < 2^(e+1)\<close>, kept within the exponent range \<open>-1022 .. 1023\<close> of a double.
  A double of that binade is a multiple of \<open>2^(e-52)\<close>.
\<close>

function binade :: "real \<Rightarrow> int \<Rightarrow> int" where
  "binade a e =
     (if 2 \<le> a \<and> e < 1023 then binade (a / 2) (e + 1)
      else if a < 1 \<and> - 1022 < e then binade (2 * a) (e - 1)
      else e)"
  by pat_completeness auto
termination
  by (relation "measure (\<lambda>(a, e). if 2 \<le> a then 3000 + nat (1023 - e)
                                   else if a < 1 then nat (e + 1022) else 0)") auto

declare binade.simps [simp del]

definition round_half_even :: "real \<Rightarrow> int" where
  "round_half_even m =
     (let k = \<lfloor>m\<rfloor>; r = m - of_int k
      in if 1 / 2 < r \<or> (r = 1 / 2 \<and> odd k) then k + 1 else k)"

definition ulp :: "real \<Rightarrow> real" where
  "ulp a = 2 powi (binade a 0 - 52)"

text \<open>
  The double nearest to a real. A non-zero real that rounds to zero keeps its sign; the
  sign of an exact zero result is decided by the operation.
\<close>

definition to_double :: "real \<Rightarrow> double" where
  "to_double x =
     (let q = ulp \<bar>x\<bar>;
          m = of_int (round_half_even (\<bar>x\<bar> / q)) * q
      in if 2 ^ 1024 \<le> m then (if x < 0 then NegInf else PosInf)
         else if m = 0 then (if x < 0 then NegZero else Fin 0)
         else Fin (if x < 0 then - m else m))"

definition is_neg :: "double \<Rightarrow> bool" where
  "is_neg v = (case v of Fin r \<Rightarrow> r < 0 | NegZero \<Rightarrow> True | NegInf \<Rightarrow> True | _ \<Rightarrow> False)"

definition is_inf :: "double \<Rightarrow> bool" where
  "is_inf v = (v = PosInf \<or> v = NegInf)"

definition is_zero :: "double \<Rightarrow> bool" where
  "is_zero v = (v = Fin 0 \<or> v = NegZero)"

definition real_of :: "double \<Rightarrow> real" where
  "real_of v = (case v of Fin r \<Rightarrow> r | _ \<Rightarrow> 0)"

definition zero_d :: "bool \<Rightarrow> double" where
  "zero_d negative = (if negative then NegZero else Fin 0)"

definition inf_d :: "bool \<Rightarrow> double" where
  "inf_d negative = (if negative then NegInf else PosInf)"

definition neg_d :: "double \<Rightarrow> double" where
  "neg_d v = (case v of Fin r \<Rightarrow> (if r = 0 then NegZero else Fin (- r)) | NegZero \<Rightarrow> Fin 0
              | PosInf \<Rightarrow> NegInf | NegInf \<Rightarrow> PosInf | NotANumber \<Rightarrow> NotANumber)"

definition add_d :: "double \<Rightarrow> double \<Rightarrow> double" where
  "add_d a b =
     (if a = NotANumber \<or> b = NotANumber then NotANumber
      else if is_inf a then (if is_inf b \<and> b \<noteq> a then NotANumber else a)
      else if is_inf b then b
      else let s = real_of a + real_of b
           in if s = 0 then zero_d (a = NegZero \<and> b = NegZero) else to_double s)"

definition sub_d :: "double \<Rightarrow> double \<Rightarrow> double" where
  "sub_d a b = add_d a (neg_d b)"

definition mul_d :: "double \<Rightarrow> double \<Rightarrow> double" where
  "mul_d a b =
     (if a = NotANumber \<or> b = NotANumber then NotANumber
      else let negative = (is_neg a \<noteq> is_neg b)
           in if is_inf a \<or> is_inf b
              then (if is_zero a \<or> is_zero b then NotANumber else inf_d negative)
              else let p = real_of a * real_of b
                   in if p = 0 then zero_d negative else to_double p)"

definition div_d :: "double \<Rightarrow> double \<Rightarrow> double" where
  "div_d a b =
     (if a = NotANumber \<or> b = NotANumber then NotANumber
      else let negative = (is_neg a \<noteq> is_neg b)
           in if is_inf a then (if is_inf b then NotANumber else inf_d negative)
              else if is_inf b then zero_d negative
              else if is_zero b then (if is_zero a then NotANumber else inf_d negative)
              else if is_zero a then zero_d negative
              else to_double (real_of a / real_of b))"

definition floor_d :: "double \<Rightarrow> double" where
  "floor_d v = (case v of Fin r \<Rightarrow> Fin (of_int \<lfloor>r\<rfloor>) | _ \<Rightarrow> v)"

definition abs_d :: "double \<Rightarrow> double" where
  "abs_d v = (case v of Fin r \<Rightarrow> Fin \<bar>r\<bar> | NegZero \<Rightarrow> Fin 0 | PosInf \<Rightarrow> PosInf
              | NegInf \<Rightarrow> PosInf | NotANumber \<Rightarrow> NotANumber)"

text \<open>
  \<open>ToInt32\<close>, the conversion the bitwise operators apply: \<open>NaN\<close>, the zeros and the
  infinities give \<open>0\<close>, a finite number is truncated towards zero and taken modulo
  \<open>2^32\<close>.
\<close>

definition to_int32_d :: "double \<Rightarrow> 32 word" where
  "to_int32_d v =
     (case v of Fin r \<Rightarrow> word_of_int (if r < 0 then - \<lfloor>- r\<rfloor> else \<lfloor>r\<rfloor>) | _ \<Rightarrow> 0)"

definition of_int_d :: "int \<Rightarrow> double" where
  "of_int_d k = Fin (of_int k)"

text \<open>The comparison \<^verbatim>\<open>v >= 0\<close>: true of both zeros, false of \<open>NaN\<close>.\<close>

definition ge_zero_d :: "double \<Rightarrow> bool" where
  "ge_zero_d v = (case v of Fin r \<Rightarrow> 0 \<le> r | NegZero \<Rightarrow> True | PosInf \<Rightarrow> True | _ \<Rightarrow> False)"

definition noise2d_d :: "double \<Rightarrow> double \<Rightarrow> double \<Rightarrow> double" where
  "noise2d_d x y seed =
     (let x = floor_d x; y = floor_d y;
          n = to_int32_d (add_d (add_d (mul_d (of_int_d NOISE_MAGIC_X) x)
                                       (mul_d (of_int_d NOISE_MAGIC_Y) y))
                                (mul_d (of_int_d NOISE_MAGIC_SEED) seed)) AND 0x7fffffff
      in sub_d (Fin 1) (div_d (of_int_d (sint (noise_mix n))) (Fin 0x40000000)))"

definition noise3d_d :: "double \<Rightarrow> double \<Rightarrow> double \<Rightarrow> double \<Rightarrow> double" where
  "noise3d_d x y z seed =
     (let x = floor_d x; y = floor_d y; z = floor_d z;
          n = to_int32_d (add_d (add_d (add_d (mul_d (of_int_d NOISE_MAGIC_X) x)
                                              (mul_d (of_int_d NOISE_MAGIC_Y) y))
                                       (mul_d (of_int_d NOISE_MAGIC_Z) z))
                                (mul_d (of_int_d NOISE_MAGIC_SEED) seed)) AND 0x7fffffff
      in sub_d (Fin 1) (div_d (of_int_d (sint (noise_mix n))) (Fin 0x40000000)))"

definition linearInterpolation_d :: "double \<Rightarrow> double \<Rightarrow> double \<Rightarrow> double" where
  "linearInterpolation_d v0 v1 t = add_d v0 (mul_d (sub_d v1 v0) t)"

definition easeCurve_d :: "double \<Rightarrow> double" where
  "easeCurve_d t =
     mul_d (mul_d (mul_d t t) t)
           (add_d (mul_d t (sub_d (mul_d (Fin 6) t) (Fin 15))) (Fin 10))"

definition biLinearInterpolation_d ::
  "double \<Rightarrow> double \<Rightarrow> double \<Rightarrow> double \<Rightarrow> double \<Rightarrow> double \<Rightarrow> bool \<Rightarrow> double" where
  "biLinearInterpolation_d v00 v10 v01 v11 x y eased =
     (let x = (if eased then easeCurve_d x else x);
          y = (if eased then easeCurve_d y else y);
          u = linearInterpolation_d v00 v10 x;
          v = linearInterpolation_d v01 v11 x
      in linearInterpolation_d u v y)"

definition triLinearInterpolation_d ::
  "double \<Rightarrow> double \<Rightarrow> double \<Rightarrow> double \<Rightarrow> double \<Rightarrow> double \<Rightarrow> double \<Rightarrow> double
     \<Rightarrow> double \<Rightarrow> double \<Rightarrow> double \<Rightarrow> bool \<Rightarrow> double" where
  "triLinearInterpolation_d v000 v100 v010 v110 v001 v101 v011 v111 x y z eased =
     (let x = (if eased then easeCurve_d x else x);
          y = (if eased then easeCurve_d y else y);
          z = (if eased then easeCurve_d z else z);
          u = biLinearInterpolation_d v000 v100 v010 v110 x y False;
          v = biLinearInterpolation_d v001 v101 v011 v111 x y False
      in linearInterpolation_d u v z)"

definition noise2d_gradient_d :: "double \<Rightarrow> double \<Rightarrow> double \<Rightarrow> bool \<Rightarrow> double" where
  "noise2d_gradient_d x y seed eased =
     (let x0 = floor_d x; y0 = floor_d y;
          xl = sub_d x x0; yl = sub_d y y0;
          v00 = noise2d_d x0 y0 seed;
          v10 = noise2d_d (add_d x0 (Fin 1)) y0 seed;
          v01 = noise2d_d x0 (add_d y0 (Fin 1)) seed;
          v11 = noise2d_d (add_d x0 (Fin 1)) (add_d y0 (Fin 1)) seed
      in biLinearInterpolation_d v00 v10 v01 v11 xl yl eased)"

definition noise3d_gradient_d ::
  "double \<Rightarrow> double \<Rightarrow> double \<Rightarrow> double \<Rightarrow> bool \<Rightarrow> double" where
  "noise3d_gradient_d x y z seed eased =
     (let x0 = floor_d x; y0 = floor_d y; z0 = floor_d z;
          xl = sub_d x x0; yl = sub_d y y0; zl = sub_d z z0;
          v000 = noise3d_d x0 y0 z0 seed;
          v100 = noise3d_d (add_d x0 (Fin 1)) y0 z0 seed;
          v010 = noise3d_d x0 (add_d y0 (Fin 1)) z0 seed;
          v110 = noise3d_d (add_d x0 (Fin 1)) (add_d y0 (Fin 1)) z0 seed;
          v001 = noise3d_d x0 y0 (add_d z0 (Fin 1)) seed;
          v101 = noise3d_d (add_d x0 (Fin 1)) y0 (add_d z0 (Fin 1)) seed;
          v011 = noise3d_d x0 (add_d y0 (Fin 1)) (add_d z0 (Fin 1)) seed;
          v111 = noise3d_d (add_d x0 (Fin 1)) (add_d y0 (Fin 1)) (add_d z0 (Fin 1)) seed
      in triLinearInterpolation_d v000 v100 v010 v110 v001 v101 v011 v111 xl yl zl eased)"

text \<open>
  The parameter record with doubles in its numeric fields. \<open>octaves\<close> and \<open>flags\<close>
  are integers. The loop counter \<open>i\<close> of the octave loop is an integer as well: up to
  \<open>2^53\<close> every integer is a double and \<open>i++\<close> is exact.
\<close>

record noise_params_d =
  npd_offset :: double
  npd_scale :: double
  npd_spread_x :: double
  npd_spread_y :: double
  npd_spread_z :: double
  npd_seed :: double
  npd_octaves :: int
  npd_persist :: double
  npd_lacunarity :: double
  npd_flags :: int

function octaves2D_d ::
  "noise_params_d \<Rightarrow> double \<Rightarrow> double \<Rightarrow> double \<Rightarrow> int \<Rightarrow> double \<Rightarrow> double \<Rightarrow> double
     \<Rightarrow> double" where
  "octaves2D_d np x y seed i a f g =
     (if i < npd_octaves np then
        let noiseval = noise2d_gradient_d (mul_d x f) (mul_d y f) (add_d seed (of_int_d i))
                         (npd_flags np AND (NOISE_FLAG_DEFAULTS OR NOISE_FLAG_EASED) \<noteq> 0);
            noiseval = (if npd_flags np AND NOISE_FLAG_ABSVALUE \<noteq> 0 then abs_d noiseval
                        else noiseval)
        in octaves2D_d np x y seed (i + 1) (add_d a (mul_d g noiseval))
             (mul_d f (npd_lacunarity np)) (mul_d g (npd_persist np))
      else a)"
  by pat_completeness auto
termination
  by (relation "measure (\<lambda>(np, x, y, seed, i, a, f, g). nat (npd_octaves np - i))") auto

declare octaves2D_d.simps [simp del]

definition NoisePerlin2D_d :: "noise_params_d \<Rightarrow> double \<Rightarrow> double \<Rightarrow> double \<Rightarrow> double" where
  "NoisePerlin2D_d np x y seed =
     (let x = div_d x (npd_spread_x np);
          y = div_d y (npd_spread_y np);
          seed = add_d seed (npd_seed np);
          a = octaves2D_d np x y seed 0 (Fin 0) (Fin 1) (Fin 1)
      in add_d (npd_offset np) (mul_d a (npd_scale np)))"

function octaves3D_d ::
  "noise_params_d \<Rightarrow> double \<Rightarrow> double \<Rightarrow> double \<Rightarrow> double \<Rightarrow> int \<Rightarrow> double \<Rightarrow> double
     \<Rightarrow> double \<Rightarrow> double" where
  "octaves3D_d np x y z seed i a f g =
     (if i < npd_octaves np then
        let noiseval = noise3d_gradient_d (mul_d x f) (mul_d y f) (mul_d z f)
                         (add_d seed (of_int_d i)) (npd_flags np AND NOISE_FLAG_EASED \<noteq> 0);
            noiseval = (if npd_flags np AND NOISE_FLAG_ABSVALUE \<noteq> 0 then abs_d noiseval
                        else noiseval)
        in octaves3D_d np x y z seed (i + 1) (add_d a (mul_d g noiseval))
             (mul_d f (npd_lacunarity np)) (mul_d g (npd_persist np))
      else a)"
  by pat_completeness auto
termination
  by (relation "measure (\<lambda>(np, x, y, z, seed, i, a, f, g). nat (npd_octaves np - i))") auto

declare octaves3D_d.simps [simp del]

definition NoisePerlin3D_d ::
  "noise_params_d \<Rightarrow> double \<Rightarrow> double \<Rightarrow> double \<Rightarrow> double \<Rightarrow> double" where
  "NoisePerlin3D_d np x y z seed =
     (let x = div_d x (npd_spread_x np);
          y = div_d y (npd_spread_y np);
          z = div_d z (npd_spread_z np);
          seed = add_d seed (npd_seed np);
          a = octaves3D_d np x y z seed 0 (Fin 0) (Fin 1) (Fin 1)
      in add_d (npd_offset np) (mul_d a (npd_scale np)))"

text \<open>\<^verbatim>\<open>v >= 0\<close> or \<open>v\<close> is \<open>NaN\<close>.\<close>

definition nan_or_ge_zero :: "double \<Rightarrow> bool" where
  "nan_or_ge_zero v = (v = NotANumber \<or> ge_zero_d v)"

text \<open>The values \<open>k / 2^30\<close> with \<open>-2^30 \<le> k \<le> 2^30\<close> that the lattice hash takes.\<close>

definition is_lattice_value :: "double \<Rightarrow> bool" where
  "is_lattice_value v = (\<exists>k. \<bar>k\<bar> \<le> 2 ^ 30 \<and> v = Fin (of_int k / 2 ^ 30))"


section \<open>Graph data model (class \<open>NodeGraph\<close> in src/utils.js)\<close>

text \<open>
  Port and connection identifiers are strings. Node ids are the natural numbers handed
  out by \<open>nextNodeId++\<close>. A node carries its \<open>type\<close> string and a \<open>params\<close>
  object; the parameter objects that \<open>addNode\<close> creates are the alternatives of
  \<open>params\<close>.
\<close>

record port =
  port_id :: string
  port_name :: string
  port_type :: string

datatype params =
    NoParams
  | NoiseParams noise_params
  | MandelbrotParams (mp_scale: real) (mp_offsetX: real) (mp_offsetZ: real) (mp_steps: int)
      (mp_remap: bool) (mp_remapMin: real) (mp_remapMax: real)
  | LerpParams (lp_power: real)
  | GaussianParams (gp_centerX: real) (gp_centerY: real) (gp_centerZ: real) (gp_spread: real)
  | RemapParams (rp_inMin: real) (rp_inMax: real) (rp_outMin: real) (rp_outMax: real)
  | DistanceParams (dp_pointX: real) (dp_pointY: real) (dp_pointZ: real)
  | CompareParams (cp_operator: string) (cp_useTrue: real) (cp_useFalse: real)
  | TerrainParams (tp_name: string) (tp_type: string) (tp_color: string)

record node =
  node_id :: nat
  node_type :: string
  node_x :: real
  node_y :: real
  node_inputs :: "port list"
  node_outputs :: "port list"
  node_params :: params

record connection =
  conn_from :: string
  conn_to :: string

record graph =
  nodes :: "node list"
  connections :: "connection list"
  nextNodeId :: nat

subsection \<open>Strings: number rendering, \<open>split\<close>, \<open>parseInt\<close>\<close>

text \<open>
  \<open>string_of_nat\<close> is the decimal rendering that a template literal or \<open>nodeId + '_'\<close>
  gives a non-negative integer (below \<open>10^21\<close>, where JavaScript switches to
  exponent notation).
\<close>

definition digit_char :: "nat \<Rightarrow> char" where
  "digit_char d = ''0123456789'' ! d"

function string_of_nat :: "nat \<Rightarrow> string" where
  "string_of_nat n =
     (if n < 10 then [digit_char n] else string_of_nat (n div 10) @ [digit_char (n mod 10)])"
  by pat_completeness auto
termination
  by (relation "measure (\<lambda>n. n)") auto

declare string_of_nat.simps [simp del]

text \<open>\<open>s.split(c)\<close> for a one-character separator; the result is never empty.\<close>

fun split_on :: "char \<Rightarrow> string \<Rightarrow> string list" where
  "split_on c [] = [[]]"
| "split_on c (x # xs) =
     (if x = c then [] # split_on c xs
      else (case split_on c xs of p # ps \<Rightarrow> (x # p) # ps | [] \<Rightarrow> [[x]]))"

text \<open>
  \<open>parseInt(s, 10)\<close>: skip leading white space, read an optional sign, then the longest
  run of decimal digits; \<open>None\<close> stands for \<open>NaN\<close> (no digit found). Strings are
  ASCII here.
\<close>

definition is_space :: "char \<Rightarrow> bool" where
  "is_space c = (of_char c \<in> {9, 10, 11, 12, 13, 32 :: nat})"

definition is_digit :: "char \<Rightarrow> bool" where
  "is_digit c = (48 \<le> (of_char c :: nat) \<and> (of_char c :: nat) \<le> 57)"

definition digits_value :: "string \<Rightarrow> nat" where
  "digits_value ds = foldl (\<lambda>a c. 10 * a + (of_char c - 48)) 0 ds"

definition parseInt :: "string \<Rightarrow> int option" where
  "parseInt s =
     (let s1 = dropWhile is_space s;
          neg = (case s1 of c # r \<Rightarrow> c = CHR ''-'' | [] \<Rightarrow> False);
          s2 = (case s1 of c # r \<Rightarrow> if c = CHR ''-'' \<or> c = CHR ''+'' then r else s1
                | [] \<Rightarrow> []);
          ds = takeWhile is_digit s2
      in if ds = [] then None
         else Some (if neg then - int (digits_value ds) else int (digits_value ds)))"

subsection \<open>Structural operations\<close>

text \<open>The port layout and default parameters that \<open>addNode\<close> gives each node type.\<close>

definition mk_port :: "nat \<Rightarrow> string \<Rightarrow> string \<Rightarrow> string \<Rightarrow> port" where
  "mk_port i sfx name ty =
     \<lparr>port_id = string_of_nat i @ ''_'' @ sfx, port_name = name, port_type = ty\<rparr>"

definition default_inputs :: "string \<Rightarrow> nat \<Rightarrow> port list" where
  "default_inputs ty i =
     (if ty = ''lerp'' \<or> ty = ''coserp'' then
        [mk_port i ''in1'' ''A'' ''float'', mk_port i ''in2'' ''B'' ''float'',
         mk_port i ''factor'' ''Factor'' ''float'']
      else if ty = ''add'' \<or> ty = ''multiply'' \<or> ty = ''subtract'' then
        [mk_port i ''in1'' ''A'' ''float'', mk_port i ''in2'' ''B'' ''float'']
      else if ty = ''abs'' \<or> ty = ''remap'' then [mk_port i ''in'' ''Value'' ''float'']
      else if ty = ''gaussian'' \<or> ty = ''distance'' then
        [mk_port i ''x'' ''X'' ''float'', mk_port i ''y'' ''Y'' ''float'',
         mk_port i ''z'' ''Z'' ''float'']
      else if ty = ''compare'' then
        [mk_port i ''in1'' ''A'' ''float'', mk_port i ''in2'' ''B'' ''float'',
         mk_port i ''useTrue'' ''If True'' ''terrain'',
         mk_port i ''useFalse'' ''If False'' ''terrain'']
      else if ty = ''terrain-output'' then [mk_port i ''in'' ''Terrain'' ''terrain'']
      else [])"

definition default_outputs :: "string \<Rightarrow> nat \<Rightarrow> port list" where
  "default_outputs ty i =
     (if ty = ''noise2d'' \<or> ty = ''noise3d'' \<or> ty = ''mandelbrot'' then
        [mk_port i ''out'' ''Value'' ''float'']
      else if ty = ''lerp'' \<or> ty = ''coserp'' \<or> ty = ''add'' \<or> ty = ''multiply''
              \<or> ty = ''subtract'' \<or> ty = ''abs'' \<or> ty = ''gaussian'' \<or> ty = ''remap'' then
        [mk_port i ''out'' ''Result'' ''float'']
      else if ty = ''position'' then
        [mk_port i ''outX'' ''X'' ''float'', mk_port i ''outY'' ''Y'' ''float'',
         mk_port i ''outZ'' ''Z'' ''float'']
      else if ty = ''distance'' then [mk_port i ''out'' ''Distance'' ''float'']
      else if ty = ''compare'' then [mk_port i ''out'' ''Result'' ''terrain'']
      else if ty = ''terrain-type'' then [mk_port i ''out'' ''Terrain'' ''terrain'']
      else [])"

text \<open>
  \<open>rnd\<close> is the value of \<open>Math.floor(Math.random() * 100000)\<close> that seeds a noise node.
  A \<open>noise2d\<close> node has no \<open>spreadZ\<close>; the 2D path never reads that field.
\<close>

definition default_params :: "string \<Rightarrow> int \<Rightarrow> params" where
  "default_params ty rnd =
     (if ty = ''noise2d'' then
        NoiseParams \<lparr>np_offset = 0, np_scale = 1, np_spread_x = 250, np_spread_y = 250,
          np_spread_z = 0, np_seed = rnd, np_octaves = 3, np_persist = 6 / 10,
          np_lacunarity = 2, np_flags = NOISE_FLAG_DEFAULTS\<rparr>
      else if ty = ''noise3d'' then
        NoiseParams \<lparr>np_offset = 0, np_scale = 1, np_spread_x = 250, np_spread_y = 250,
          np_spread_z = 250, np_seed = rnd, np_octaves = 3, np_persist = 6 / 10,
          np_lacunarity = 2, np_flags = NOISE_FLAG_DEFAULTS\<rparr>
      else if ty = ''mandelbrot'' then
        MandelbrotParams 10000000 (- 1415 / 2000) (- 706 / 2000) 150 True 0 1
      else if ty = ''lerp'' then LerpParams 1
      else if ty = ''gaussian'' then GaussianParams 0 0 0 100
      else if ty = ''remap'' then RemapParams 0 1 0 1
      else if ty = ''distance'' then DistanceParams 0 0 0
      else if ty = ''compare'' then CompareParams ''<'' 1 0
      else if ty = ''terrain-type'' then TerrainParams ''Stone'' ''solid'' ''#888888''
      else NoParams)"

definition addNode :: "graph \<Rightarrow> string \<Rightarrow> real \<Rightarrow> real \<Rightarrow> int \<Rightarrow> node \<times> graph" where
  "addNode g ty x y rnd =
     (let i = nextNodeId g;
          n = \<lparr>node_id = i, node_type = ty, node_x = x, node_y = y,
               node_inputs = default_inputs ty i, node_outputs = default_outputs ty i,
               node_params = default_params ty rnd\<rparr>
      in (n, g\<lparr>nodes := nodes g @ [n], nextNodeId := i + 1\<rparr>))"

record removal =
  removed_node :: "node option"
  removed_connections :: "connection list"

definition removeNode :: "graph \<Rightarrow> nat \<Rightarrow> removal \<times> graph" where
  "removeNode g nodeId =
     (case find (\<lambda>n. node_id n = nodeId) (nodes g) of
        None \<Rightarrow> (\<lparr>removed_node = None, removed_connections = []\<rparr>, g)
      | Some n \<Rightarrow>
          if node_type n = ''terrain-output'' then
            (\<lparr>removed_node = None, removed_connections = []\<rparr>, g)
          else
            let pre = string_of_nat nodeId @ ''_'';
                connectionsToRemove =
                  filter (\<lambda>c. prefix pre (conn_from c) \<or> prefix pre (conn_to c)) (connections g);
                g1 = g\<lparr>connections :=
                        filter (\<lambda>c. \<not> prefix pre (conn_from c) \<and> \<not> prefix pre (conn_to c))
                          (connections g)\<rparr>;
                g2 = g1\<lparr>nodes := filter (\<lambda>n. node_id n \<noteq> nodeId) (nodes g1)\<rparr>
            in (\<lparr>removed_node = Some n, removed_connections = connectionsToRemove\<rparr>, g2))"

text \<open>
  \<open>getNodeIdFromPortId\<close>: the text before the first underscore, read by \<open>parseInt\<close>;
  \<open>None\<close> is \<open>null\<close>.
\<close>

definition getNodeIdFromPortId :: "graph \<Rightarrow> string \<Rightarrow> nat option" where
  "getNodeIdFromPortId g portId =
     (let parts = split_on CHR ''_'' portId
      in if length parts < 2 then None
         else case parseInt (hd parts) of
                None \<Rightarrow> None
              | Some v \<Rightarrow> if list_ex (\<lambda>n. int (node_id n) = v) (nodes g) then Some (nat v)
                          else None)"

text \<open>\<open>!id\<close> for a node id or \<open>null\<close>: true for \<open>null\<close> and for \<open>0\<close>.\<close>

definition falsy_id :: "nat option \<Rightarrow> bool" where
  "falsy_id i = (i = None \<or> i = Some 0)"


text \<open>
  \<open>hasPath\<close> threads the mutable \<open>visited\<close> set through its recursion and through
  the loop over the outgoing connections (\<open>hasPathLoop\<close>); both return the answer
  together with the set as they leave it. The start node may be \<open>null\<close>.
\<close>

function hasPath ::
    "graph \<Rightarrow> nat option \<Rightarrow> nat option \<Rightarrow> nat option set \<Rightarrow> bool \<times> nat option set"
  and hasPathLoop ::
    "graph \<Rightarrow> connection list \<Rightarrow> nat option \<Rightarrow> nat option set \<Rightarrow> bool \<times> nat option set"
where
  "hasPath g startNodeId endNodeId visited =
     (if startNodeId \<in> visited then (False, visited)
      else
        let visited = insert startNodeId visited;
            outgoingConnections =
              filter (\<lambda>c. getNodeIdFromPortId g (conn_from c) = startNodeId) (connections g)
        in hasPathLoop g outgoingConnections endNodeId visited)"
| "hasPathLoop g [] endNodeId visited = (False, visited)"
| "hasPathLoop g (c # cs) endNodeId visited =
     (let toNodeId = getNodeIdFromPortId g (conn_to c)
      in if toNodeId = endNodeId then (True, visited)
         else
           let r = hasPath g toNodeId endNodeId visited
           in if fst r then (True, snd r) else hasPathLoop g cs endNodeId (snd r))"
  by pat_completeness auto

definition node_universe :: "graph \<Rightarrow> nat option set" where
  "node_universe g = insert None (Some ` node_id ` set (nodes g))"

lemma finite_node_universe: "finite (node_universe g)"
  by (simp add: node_universe_def)

lemma getNodeIdFromPortId_universe: "getNodeIdFromPortId g p \<in> node_universe g"
  by (auto simp: getNodeIdFromPortId_def node_universe_def Let_def list_ex_iff image_iff
      split: option.splits)

lemma hasPath_visited_mono:
  "hasPath_hasPathLoop_dom (Inl (g, s, e, v)) \<Longrightarrow> v \<subseteq> snd (hasPath g s e v)"
  "hasPath_hasPathLoop_dom (Inr (g, cs, e, v)) \<Longrightarrow> v \<subseteq> snd (hasPathLoop g cs e v)"
proof (induction g s e v and g cs e v rule: hasPath_hasPathLoop.pinduct)
  case (1 g startNodeId endNodeId visited)
  then show ?case by (auto simp: hasPath.psimps Let_def)
next
  case (2 g endNodeId visited)
  then show ?case by (simp add: hasPathLoop.psimps)
next
  case (3 g c cs endNodeId visited)
  let ?r = "hasPath g (getNodeIdFromPortId g (conn_to c)) endNodeId visited"
  show ?case
  proof (cases "getNodeIdFromPortId g (conn_to c) = endNodeId \<or> fst ?r")
    case True
    then show ?thesis using 3(1,2) by (auto simp: hasPathLoop.psimps Let_def)
  next
    case False
    then have "snd ?r \<subseteq> snd (hasPathLoop g cs endNodeId (snd ?r))"
      using 3(3) [OF refl _ refl] by simp
    moreover have "visited \<subseteq> snd ?r" using 3(2) False by simp
    ultimately show ?thesis using 3(1) False by (auto simp: hasPathLoop.psimps Let_def)
  qed
qed

termination hasPath
proof (relation "inv_image (less_than <*lex*> less_than)
    (\<lambda>a. case a of
       Inl (g, s, e, v) \<Rightarrow> (card (insert s (node_universe g) - v), 0)
     | Inr (g, cs, e, v) \<Rightarrow> (card (node_universe g - v), Suc (length cs)))", goal_cases)
  case 1
  then show ?case by (intro wf_inv_image wf_lex_prod wf_less_than)
next
  case (2 g startNodeId endNodeId visited x xa)
  have "node_universe g - insert startNodeId visited
          \<subset> insert startNodeId (node_universe g) - visited"
    using 2 by auto
  then have "card (node_universe g - insert startNodeId visited)
               < card (insert startNodeId (node_universe g) - visited)"
    by (intro psubset_card_mono) (simp_all add: finite_node_universe)
  then show ?case using 2 by simp
next
  case (3 g c cs endNodeId visited x)
  then show ?case
    by (simp add: insert_absorb getNodeIdFromPortId_universe)
next
  case (4 g c cs endNodeId visited x xa)
  have "visited \<subseteq> snd (hasPath g x endNodeId visited)"
    using 4 hasPath_visited_mono(1) by simp
  then have "card (node_universe g - snd (hasPath g x endNodeId visited))
               \<le> card (node_universe g - visited)"
    by (intro card_mono) (auto simp: finite_node_universe)
  then show ?case using 4 by auto
qed

declare hasPath.simps [simp del]

definition wouldCreateCycle :: "graph \<Rightarrow> string \<Rightarrow> string \<Rightarrow> bool" where
  "wouldCreateCycle g fromPortId toPortId =
     (let fromNodeId = getNodeIdFromPortId g fromPortId;
          toNodeId = getNodeIdFromPortId g toPortId
      in if falsy_id fromNodeId \<or> falsy_id toNodeId then False
         else if fromNodeId = toNodeId then True
         else fst (hasPath g toNodeId fromNodeId {}))"

text \<open>\<open>addConnection\<close> returns its boolean together with the graph as it leaves it.\<close>

definition addConnection :: "graph \<Rightarrow> string \<Rightarrow> string \<Rightarrow> bool \<times> graph" where
  "addConnection g fromPortId toPortId =
     (let exists = list_ex (\<lambda>c. conn_to c = toPortId) (connections g);
          g1 = (if exists
                then g\<lparr>connections := filter (\<lambda>c. conn_to c \<noteq> toPortId) (connections g)\<rparr>
                else g)
      in if wouldCreateCycle g1 fromPortId toPortId then (False, g1)
         else (True, g1\<lparr>connections :=
                          connections g1 @ [\<lparr>conn_from = fromPortId, conn_to = toPortId\<rparr>]\<rparr>))"

definition getOutputNode :: "graph \<Rightarrow> node option" where
  "getOutputNode g = find (\<lambda>n. node_type n = ''terrain-output'') (nodes g)"

section \<open>Validation and export\<close>

datatype error = TypeError

text \<open>
  \<open>findConnectedNodes\<close> fills the mutable set \<open>usedNodes\<close>; the loop over the inputs
  of a node is \<open>findConnectedInputs\<close>.
\<close>

function findConnectedNodes :: "graph \<Rightarrow> nat \<Rightarrow> nat set \<Rightarrow> nat set"
  and findConnectedInputs :: "graph \<Rightarrow> port list \<Rightarrow> nat set \<Rightarrow> nat set"
where
  "findConnectedNodes g nodeId usedNodes =
     (if nodeId \<in> usedNodes then usedNodes
      else
        let usedNodes = insert nodeId usedNodes
        in case find (\<lambda>n. node_id n = nodeId) (nodes g) of
             None \<Rightarrow> usedNodes
           | Some n \<Rightarrow> findConnectedInputs g (node_inputs n) usedNodes)"
| "findConnectedInputs g [] usedNodes = usedNodes"
| "findConnectedInputs g (input # rest) usedNodes =
     (case find (\<lambda>c. conn_to c = port_id input) (connections g) of
        None \<Rightarrow> findConnectedInputs g rest usedNodes
      | Some conn \<Rightarrow>
          (case getNodeIdFromPortId g (conn_from conn) of
             None \<Rightarrow> findConnectedInputs g rest usedNodes
           | Some fromNodeId \<Rightarrow>
               if fromNodeId = 0 then findConnectedInputs g rest usedNodes
               else findConnectedInputs g rest (findConnectedNodes g fromNodeId usedNodes)))"
  by pat_completeness auto

lemma getNodeIdFromPortId_Some_node:
  "getNodeIdFromPortId g p = Some k \<Longrightarrow> k \<in> node_id ` set (nodes g)"
  by (auto simp: getNodeIdFromPortId_def Let_def list_ex_iff image_iff
      split: option.splits if_splits)

lemma findConnectedNodes_mono:
  "findConnectedNodes_findConnectedInputs_dom (Inl (g, k, u)) \<Longrightarrow> u \<subseteq> findConnectedNodes g k u"
  "findConnectedNodes_findConnectedInputs_dom (Inr (g, ps, u))
     \<Longrightarrow> u \<subseteq> findConnectedInputs g ps u"
proof (induction g k u and g ps u rule: findConnectedNodes_findConnectedInputs.pinduct)
  case (1 g nodeId usedNodes)
  then show ?case
    by (auto simp: findConnectedNodes.psimps Let_def split: option.splits)
next
  case (2 g usedNodes)
  then show ?case by (simp add: findConnectedInputs.psimps)
next
  case (3 g input rest usedNodes)
  then show ?case
    by (fastforce simp: findConnectedInputs.psimps split: option.splits if_splits)
qed

termination findConnectedNodes
proof (relation "inv_image (less_than <*lex*> less_than)
    (\<lambda>a. case a of
       Inl (g, k, u) \<Rightarrow> (card (insert k (node_id ` set (nodes g)) - u), 0)
     | Inr (g, ps, u) \<Rightarrow> (card (node_id ` set (nodes g) - u), Suc (length ps)))", goal_cases)
  case 1
  then show ?case by (intro wf_inv_image wf_lex_prod wf_less_than)
next
  case (2 g nodeId usedNodes x x2)
  have "node_id ` set (nodes g) - insert nodeId usedNodes
          \<subset> insert nodeId (node_id ` set (nodes g)) - usedNodes"
    using 2 by auto
  then have "card (node_id ` set (nodes g) - insert nodeId usedNodes)
               < card (insert nodeId (node_id ` set (nodes g)) - usedNodes)"
    by (intro psubset_card_mono) simp_all
  then show ?case using 2 by simp
next
  case (3 g input rest usedNodes)
  then show ?case by simp
next
  case (4 g input rest usedNodes x2)
  then show ?case by simp
next
  case (5 g input rest usedNodes x2 x2a)
  then show ?case by simp
next
  case (6 g input rest usedNodes x2 x2a)
  then show ?case
    by (simp add: insert_absorb getNodeIdFromPortId_Some_node)
next
  case (7 g input rest usedNodes x2 x2a)
  have "usedNodes \<subseteq> findConnectedNodes g x2a usedNodes"
    using 7 findConnectedNodes_mono(1) by simp
  then have "card (node_id ` set (nodes g) - findConnectedNodes g x2a usedNodes)
               \<le> card (node_id ` set (nodes g) - usedNodes)"
    by (intro card_mono) auto
  then show ?case by auto
qed

declare findConnectedNodes.simps [simp del]

text \<open>
  The edges that \<open>findConnectedNodes\<close> follows backward: \<open>input_source\<close> is the node
  behind an input port (the first connection that leads to the port, its source read by
  \<open>getNodeIdFromPortId\<close>), and \<open>(a, b) \<in> feeds g\<close> says that an input of node \<open>a\<close>
  has its source in node \<open>b\<close>.
\<close>

definition input_source :: "graph \<Rightarrow> port \<Rightarrow> nat option" where
  "input_source g p =
     (case find (\<lambda>c. conn_to c = port_id p) (connections g) of
        None \<Rightarrow> None
      | Some conn \<Rightarrow>
          (case getNodeIdFromPortId g (conn_from conn) of
             None \<Rightarrow> None
           | Some b \<Rightarrow> if b = 0 then None else Some b))"

definition feeds :: "graph \<Rightarrow> (nat \<times> nat) set" where
  "feeds g =
     {(a, b). \<exists>n p. find (\<lambda>m. node_id m = a) (nodes g) = Some n \<and> p \<in> set (node_inputs n)
                    \<and> input_source g p = Some b}"

record validation =
  valid :: bool
  errors :: "string list"

text \<open>
  The three passes of \<open>validateGraph\<close>, each appending to \<open>errors\<close> in order. The
  first one reads \<open>outputNode.inputs[0].id\<close> inside the callback of \<open>find\<close>: on an
  output node without inputs this throws a \<open>TypeError\<close> as soon as there is a
  connection to test.
\<close>

definition output_errors :: "graph \<Rightarrow> error + string list" where
  "output_errors g =
     (case getOutputNode g of
        None \<Rightarrow> Inr [''No terrain output node found in the graph'']
      | Some outputNode \<Rightarrow>
          (case node_inputs outputNode of
             [] \<Rightarrow>
               if connections g = []
               then Inr [''Terrain output node is not connected to any terrain source'']
               else Inl TypeError
           | input # _ \<Rightarrow>
               (case find (\<lambda>c. conn_to c = port_id input) (connections g) of
                  None \<Rightarrow> Inr [''Terrain output node is not connected to any terrain source'']
                | Some _ \<Rightarrow> Inr [])))"

fun input_errors :: "graph \<Rightarrow> node \<Rightarrow> port list \<Rightarrow> string list" where
  "input_errors g n [] = []"
| "input_errors g n (input # rest) =
     (if node_type n = ''compare''
         \<and> (port_name input = ''If True'' \<or> port_name input = ''If False'')
      then input_errors g n rest
      else if list_ex (\<lambda>c. conn_to c = port_id input) (connections g)
      then input_errors g n rest
      else (''Node '' @ string_of_nat (node_id n) @ '' ('' @ node_type n
              @ '') has disconnected input: '' @ port_name input) # input_errors g n rest)"

fun disconnected_errors :: "graph \<Rightarrow> node list \<Rightarrow> string list" where
  "disconnected_errors g [] = []"
| "disconnected_errors g (n # ns) =
     (if node_inputs n = [] then disconnected_errors g ns
      else input_errors g n (node_inputs n) @ disconnected_errors g ns)"

definition used_nodes :: "graph \<Rightarrow> nat set" where
  "used_nodes g =
     (case getOutputNode g of
        None \<Rightarrow> {}
      | Some outputNode \<Rightarrow> findConnectedNodes g (node_id outputNode) {})"

definition unused_message :: "node \<Rightarrow> string" where
  "unused_message n =
     ''Node '' @ string_of_nat (node_id n) @ '' ('' @ node_type n
       @ '') is not connected to the output''"

fun unused_errors :: "nat set \<Rightarrow> node list \<Rightarrow> string list" where
  "unused_errors usedNodes [] = []"
| "unused_errors usedNodes (n # ns) =
     (if node_id n \<notin> usedNodes \<and> node_type n \<noteq> ''terrain-output''
      then unused_message n # unused_errors usedNodes ns
      else unused_errors usedNodes ns)"

definition validateGraph :: "graph \<Rightarrow> error + validation" where
  "validateGraph g =
     (case output_errors g of
        Inl e \<Rightarrow> Inl e
      | Inr errors1 \<Rightarrow>
          let errs = errors1 @ disconnected_errors g (nodes g)
                       @ unused_errors (used_nodes g) (nodes g)
          in Inr \<lparr>valid = (errs = []), errors = errs\<rparr>)"

text \<open>
  \<open>exportToLua\<close> validates first. The code generator that follows (the body from
  \<^verbatim>\<open>let luaCode = ...\<close> to the final \<open>return\<close>) is the parameter \<open>generate\<close>.
  The object returned for an invalid graph has no \<open>warnings\<close> field.
\<close>

record export_result =
  ex_code :: "string option"
  ex_valid :: bool
  ex_errors :: "string list"
  ex_warnings :: "string list option"

definition exportToLua ::
  "(graph \<Rightarrow> error + export_result) \<Rightarrow> graph \<Rightarrow> error + export_result" where
  "exportToLua generate g =
     (case validateGraph g of
        Inl e \<Rightarrow> Inl e
      | Inr validationResult \<Rightarrow>
          if \<not> valid validationResult then
            Inr \<lparr>ex_code = None, ex_valid = False, ex_errors = errors validationResult,
                 ex_warnings = None\<rparr>
          else generate g)"


section \<open>Evaluator\<close>

text \<open>
  The values that flow through the ports. \<open>Obj\<close> is a terrain descriptor object (a
  field that is \<open>undefined\<close> is \<open>None\<close>), \<open>PosObj\<close> the object \<open>{x, y, z}\<close> of a
  position node, \<open>Text\<close> a string. Strings only arise when \<open>+\<close> meets an object, so
  they all contain \<open>[object Object]\<close> and convert to \<open>NaN\<close>; their characters are not
  tracked, and two of them compare like equal strings. Numbers are finite reals: the
  model has no infinite numbers and no overflow, and a zero base under a negative
  power gives \<open>NaN\<close> here.
\<close>

record descriptor =
  d_name :: "string option"
  d_type :: "string option"
  d_color :: "string option"

datatype val = Num real | NaN | Undefined | Text | Obj descriptor | PosObj real real real

fun toNumber :: "val \<Rightarrow> real option" where
  "toNumber (Num r) = Some r"
| "toNumber v = None"

fun string_like :: "val \<Rightarrow> bool" where
  "string_like Text = True"
| "string_like (Obj d) = True"
| "string_like (PosObj x y z) = True"
| "string_like v = False"

definition num2 :: "(real \<Rightarrow> real \<Rightarrow> real) \<Rightarrow> val \<Rightarrow> val \<Rightarrow> val" where
  "num2 f a b =
     (case toNumber a of
        None \<Rightarrow> NaN
      | Some x \<Rightarrow> (case toNumber b of None \<Rightarrow> NaN | Some y \<Rightarrow> Num (f x y)))"

definition js_plus :: "val \<Rightarrow> val \<Rightarrow> val" where
  "js_plus a b = (if string_like a \<or> string_like b then Text else num2 (+) a b)"

definition js_minus :: "val \<Rightarrow> val \<Rightarrow> val" where
  "js_minus a b = num2 (-) a b"

definition js_times :: "val \<Rightarrow> val \<Rightarrow> val" where
  "js_times a b = num2 (*) a b"

definition Math_abs :: "val \<Rightarrow> val" where
  "Math_abs v = (case toNumber v of None \<Rightarrow> NaN | Some x \<Rightarrow> Num \<bar>x\<bar>)"

definition Math_pow :: "val \<Rightarrow> real \<Rightarrow> val" where
  "Math_pow a p =
     (if p = 0 then Num 1
      else case toNumber a of
             None \<Rightarrow> NaN
           | Some x \<Rightarrow>
               if p = of_int \<lfloor>p\<rfloor> then
                 (if 0 < p then Num (x ^ nat \<lfloor>p\<rfloor>)
                  else if x = 0 then NaN
                  else Num (1 / x ^ nat (- \<lfloor>p\<rfloor>)))
               else if x < 0 then NaN
               else if x = 0 then (if 0 < p then Num 0 else NaN)
               else Num (x powr p))"

definition js_less :: "val \<Rightarrow> val \<Rightarrow> bool" where
  "js_less a b =
     (if string_like a \<and> string_like b then False
      else case toNumber a of
             None \<Rightarrow> False
           | Some x \<Rightarrow> (case toNumber b of None \<Rightarrow> False | Some y \<Rightarrow> x < y))"

definition js_less_eq :: "val \<Rightarrow> val \<Rightarrow> bool" where
  "js_less_eq a b =
     (if string_like a \<and> string_like b then True
      else case toNumber a of
             None \<Rightarrow> False
           | Some x \<Rightarrow> (case toNumber b of None \<Rightarrow> False | Some y \<Rightarrow> x \<le> y))"

text \<open>\<open>===\<close>: two objects are never identical, since every evaluation builds its own.\<close>

fun js_strict_eq :: "val \<Rightarrow> val \<Rightarrow> bool" where
  "js_strict_eq (Num x) (Num y) = (x = y)"
| "js_strict_eq Undefined Undefined = True"
| "js_strict_eq Text Text = True"
| "js_strict_eq a b = False"

definition compare_result :: "string \<Rightarrow> val \<Rightarrow> val \<Rightarrow> bool" where
  "compare_result operator a b =
     (if operator = ''<'' then js_less a b
      else if operator = ''<='' then js_less_eq a b
      else if operator = ''>'' then js_less b a
      else if operator = ''>='' then js_less_eq b a
      else if operator = ''=='' then js_strict_eq a b
      else if operator = ''!='' then \<not> js_strict_eq a b
      else False)"

text \<open>The utility functions \<open>lerp\<close>, \<open>coserp\<close> and \<open>remap\<close> of the class.\<close>

definition clamp01 :: "val \<Rightarrow> val" where
  "clamp01 t =
     (let t = (if js_less (Num 1) t then Num 1 else t);
          t = (if js_less t (Num 0) then Num 0 else t)
      in t)"

definition lerp :: "val \<Rightarrow> val \<Rightarrow> val \<Rightarrow> real \<Rightarrow> val" where
  "lerp a b t pw =
     (let t = clamp01 t
      in js_plus (js_times (js_minus (Num 1) t) (Math_pow a pw))
                 (js_times t (Math_pow b pw)))"

definition coserp :: "val \<Rightarrow> val \<Rightarrow> val \<Rightarrow> val" where
  "coserp a b t =
     (let t = clamp01 t;
          f = (case toNumber t of None \<Rightarrow> NaN | Some r \<Rightarrow> Num ((1 - cos (r * pi)) / 2))
      in js_plus (js_times a (js_minus (Num 1) f)) (js_times b f))"

definition remap :: "val \<Rightarrow> real \<Rightarrow> real \<Rightarrow> real \<Rightarrow> real \<Rightarrow> val" where
  "remap v minVal maxVal minMap maxMap =
     (if minVal = maxVal then Num minMap
      else case toNumber v of
             None \<Rightarrow> NaN
           | Some r \<Rightarrow> Num ((r - minVal) / (maxVal - minVal) * (maxMap - minMap) + minMap))"

text \<open>
  The node types that evaluate \<open>inputs[0]\<close>, \<open>inputs[1]\<close>, ... in turn and then combine
  the values, with the number of inputs each one reads (\<open>compare\<close> reads its two
  numeric inputs this way before it picks a branch).
\<close>

definition input_arity :: "string \<Rightarrow> nat option" where
  "input_arity ty =
     (if ty = ''lerp'' \<or> ty = ''coserp'' \<or> ty = ''gaussian'' \<or> ty = ''distance'' then Some 3
      else if ty = ''add'' \<or> ty = ''multiply'' \<or> ty = ''subtract'' \<or> ty = ''compare''
      then Some 2
      else if ty = ''abs'' \<or> ty = ''remap'' then Some 1
      else None)"

text \<open>
  What such a node returns once its inputs are evaluated. A parameter object of another
  shape leaves the fields read here \<open>undefined\<close>: the arithmetic on them is \<open>NaN\<close>,
  \<open>lerp\<close> falls back to its default power, and \<open>remap\<close> sees two equal bounds.
\<close>

definition combine :: "node \<Rightarrow> val list \<Rightarrow> val" where
  "combine n vs =
     (let ty = node_type n
      in if ty = ''lerp'' then
           lerp (vs ! 0) (vs ! 1) (vs ! 2)
             (case node_params n of LerpParams pw \<Rightarrow> pw | _ \<Rightarrow> 1)
         else if ty = ''coserp'' then coserp (vs ! 0) (vs ! 1) (vs ! 2)
         else if ty = ''add'' then js_plus (vs ! 0) (vs ! 1)
         else if ty = ''multiply'' then js_times (vs ! 0) (vs ! 1)
         else if ty = ''subtract'' then js_minus (vs ! 0) (vs ! 1)
         else if ty = ''abs'' then Math_abs (vs ! 0)
         else if ty = ''gaussian'' then
           (case node_params n of
              GaussianParams cx cy cz spread \<Rightarrow>
                (let dx = js_minus (vs ! 0) (Num cx); dy = js_minus (vs ! 1) (Num cy);
                     dz = js_minus (vs ! 2) (Num cz);
                     distSq = js_plus (js_plus (js_times dx dx) (js_times dy dy)) (js_times dz dz);
                     spreadSq = spread * spread
                 in case toNumber distSq of
                      None \<Rightarrow> NaN
                    | Some d \<Rightarrow>
                        if spreadSq = 0 then (if d = 0 then NaN else Num 0)
                        else Num (exp (- d / (2 * spreadSq))))
            | _ \<Rightarrow> NaN)
         else if ty = ''remap'' then
           (case node_params n of
              RemapParams inMin inMax outMin outMax \<Rightarrow>
                remap (vs ! 0) inMin inMax outMin outMax
            | _ \<Rightarrow> Undefined)
         else if ty = ''distance'' then
           (case node_params n of
              DistanceParams px py pz \<Rightarrow>
                (let dx = js_minus (vs ! 0) (Num px); dy = js_minus (vs ! 1) (Num py);
                     dz = js_minus (vs ! 2) (Num pz)
                 in case toNumber
                      (js_plus (js_plus (js_times dx dx) (js_times dy dy)) (js_times dz dz)) of
                      None \<Rightarrow> NaN
                    | Some d \<Rightarrow> Num (sqrt d))
            | _ \<Rightarrow> NaN)
         else Num 0)"

text \<open>
  The node types that read no input. A zero \<open>scale\<close> of a mandelbrot node makes both
  coordinates infinite or \<open>NaN\<close>: two infinite ones escape in step \<open>0\<close>, a \<open>NaN\<close> never
  escapes.
\<close>

definition of_option :: "real option \<Rightarrow> val" where
  "of_option r = (case r of None \<Rightarrow> NaN | Some v \<Rightarrow> Num v)"

definition evaluateLeaf :: "node \<Rightarrow> real \<Rightarrow> real \<Rightarrow> real \<Rightarrow> port option \<Rightarrow> val" where
  "evaluateLeaf n x y z specificOutput =
     (let ty = node_type n
      in if ty = ''position'' then
           (case specificOutput of
              None \<Rightarrow> PosObj x y z
            | Some out \<Rightarrow>
                if port_id out = string_of_nat (node_id n) @ ''_outX'' then Num x
                else if port_id out = string_of_nat (node_id n) @ ''_outY'' then Num y
                else if port_id out = string_of_nat (node_id n) @ ''_outZ'' then Num z
                else PosObj x y z)
         else if ty = ''noise2d'' then
           (case node_params n of
              NoiseParams np \<Rightarrow> of_option (NoisePerlin2D np x z 0)
            | _ \<Rightarrow> NaN)
         else if ty = ''noise3d'' then
           (case node_params n of
              NoiseParams np \<Rightarrow> of_option (NoisePerlin3D np x y z 0)
            | _ \<Rightarrow> NaN)
         else if ty = ''mandelbrot'' then
           (case node_params n of
              MandelbrotParams scale offsetX offsetZ steps rm remapMin remapMax \<Rightarrow>
                (let v = (if scale = 0 then
                            (if x \<noteq> 0 \<and> z \<noteq> 0 \<and> 0 \<le> steps then 0 else steps)
                          else mandelbrot (x / scale + offsetX) (z / scale + offsetZ) steps)
                 in if rm then remap (Num (of_int v)) 0 (of_int steps) remapMin remapMax
                    else Num (of_int v))
            | _ \<Rightarrow> Undefined)
         else if ty = ''terrain-type'' then
           (case node_params n of
              TerrainParams name kind col \<Rightarrow>
                Obj \<lparr>d_name = Some name, d_type = Some kind, d_color = Some col\<rparr>
            | _ \<Rightarrow> Obj \<lparr>d_name = None, d_type = None, d_color = None\<rparr>)
         else Num 0)"

text \<open>
  \<open>findPort\<close>: the first match in the node order, the inputs of a node before its
  outputs.
\<close>

definition findPort :: "graph \<Rightarrow> string \<Rightarrow> port option" where
  "findPort g portId =
     find (\<lambda>p. port_id p = portId)
       (concat (map (\<lambda>n. node_inputs n @ node_outputs n) (nodes g)))"

text \<open>
  The first node that has an output port \<open>portId\<close>, with that port: the loop at the
  head of \<open>evaluatePort\<close>.
\<close>

fun find_output :: "node list \<Rightarrow> string \<Rightarrow> (node \<times> port) option" where
  "find_output [] portId = None"
| "find_output (n # ns) portId =
     (case find (\<lambda>out. port_id out = portId) (node_outputs n) of
        Some out \<Rightarrow> Some (n, out)
      | None \<Rightarrow> find_output ns portId)"

definition air :: val where
  "air = Obj \<lparr>d_name = None, d_type = Some ''air'', d_color = Some ''#aaaaff''\<rparr>"

definition MAX_RECURSION_DEPTH :: nat where
  "MAX_RECURSION_DEPTH = 100"

definition depth_message :: "string \<Rightarrow> string" where
  "depth_message portId =
     ''Maximum recursion depth exceeded when evaluating port '' @ portId
       @ ''. Possible cycle in graph.''"

definition cycle_message :: "string \<Rightarrow> string" where
  "cycle_message portId = ''Cycle detected when evaluating port '' @ portId"

text \<open>
  The state of one walk: the mutable set \<open>visitedPorts\<close> and the lines written with
  \<open>console.error\<close>. Reading \<open>node.inputs[i].id\<close> beyond the end of \<open>inputs\<close> throws
  a \<open>TypeError\<close>; where the read sits in the callback of \<open>connections.find\<close> (the
  \<open>If False\<close> input of a compare node), it only happens when there is a connection to
  test.
\<close>

type_synonym walk = "string set \<times> string list"

function evaluatePort ::
    "graph \<Rightarrow> string \<Rightarrow> real \<Rightarrow> real \<Rightarrow> real \<Rightarrow> walk \<Rightarrow> nat \<Rightarrow> error + val \<times> walk"
  and evaluateNode ::
    "graph \<Rightarrow> node \<Rightarrow> real \<Rightarrow> real \<Rightarrow> real \<Rightarrow> port option \<Rightarrow> walk \<Rightarrow> nat \<Rightarrow> error + val \<times> walk"
  and evaluateInputs ::
    "graph \<Rightarrow> node \<Rightarrow> nat list \<Rightarrow> real \<Rightarrow> real \<Rightarrow> real \<Rightarrow> walk \<Rightarrow> nat
       \<Rightarrow> error + val list \<times> walk"
where
  "evaluatePort g portId x y z w depth =
     (if depth > MAX_RECURSION_DEPTH then
        Inr (Num 0, (fst w, snd w @ [depth_message portId]))
      else if portId \<in> fst w then
        Inr (Num 0, (fst w, snd w @ [cycle_message portId]))
      else
        let w1 = (insert portId (fst w), snd w)
        in case find_output (nodes g) portId of
             Some (n, out) \<Rightarrow>
               evaluateNode g n x y z (Some out) (fst w1 - {portId}, snd w1) (depth + 1)
           | None \<Rightarrow>
               (case find (\<lambda>c. conn_to c = portId) (connections g) of
                  Some conn \<Rightarrow> evaluatePort g (conn_from conn) x y z w1 (depth + 1)
                | None \<Rightarrow>
                    (case findPort g portId of
                       Some p \<Rightarrow> if port_type p = ''terrain'' then Inr (air, w1)
                                 else Inr (Num 0, w1)
                     | None \<Rightarrow> Inr (Num 0, w1))))"
| "evaluateNode g n x y z specificOutput w depth =
     (case input_arity (node_type n) of
        None \<Rightarrow> Inr (evaluateLeaf n x y z specificOutput, w)
      | Some k \<Rightarrow>
          (case evaluateInputs g n [0..<k] x y z w depth of
             Inl e \<Rightarrow> Inl e
           | Inr (vs, w1) \<Rightarrow>
               if node_type n \<noteq> ''compare'' then Inr (combine n vs, w1)
               else
                 let operator = (case node_params n of CompareParams operator t f \<Rightarrow> operator
                                 | _ \<Rightarrow> []);
                     useTrue = (case node_params n of CompareParams operator t f \<Rightarrow> Num t
                                | _ \<Rightarrow> Undefined);
                     useFalse = (case node_params n of CompareParams operator t f \<Rightarrow> Num f
                                 | _ \<Rightarrow> Undefined);
                     result = compare_result operator (vs ! 0) (vs ! 1)
                 in if length (node_inputs n) > 2 then
                      (if result then
                         (case find (\<lambda>c. conn_to c = port_id (node_inputs n ! 2))
                                 (connections g) of
                            Some trueConn \<Rightarrow> evaluatePort g (conn_from trueConn) x y z w1 depth
                          | None \<Rightarrow> Inr (useTrue, w1))
                       else if length (node_inputs n) > 3 then
                         (case find (\<lambda>c. conn_to c = port_id (node_inputs n ! 3))
                                 (connections g) of
                            Some falseConn \<Rightarrow> evaluatePort g (conn_from falseConn) x y z w1 depth
                          | None \<Rightarrow> Inr (useFalse, w1))
                       else if connections g = [] then Inr (useFalse, w1)
                       else Inl TypeError)
                    else Inr (if result then useTrue else useFalse, w1)))"
| "evaluateInputs g n [] x y z w depth = Inr ([], w)"
| "evaluateInputs g n (i # is) x y z w depth =
     (if i < length (node_inputs n) then
        (case evaluatePort g (port_id (node_inputs n ! i)) x y z w depth of
           Inl e \<Rightarrow> Inl e
         | Inr (v, w1) \<Rightarrow>
             (case evaluateInputs g n is x y z w1 depth of
                Inl e \<Rightarrow> Inl e
              | Inr (vs, w2) \<Rightarrow> Inr (v # vs, w2)))
      else Inl TypeError)"
  by pat_completeness auto
termination
  by (relation "inv_image (less_than <*lex*> less_than)
       (\<lambda>a. case a of
          Inl (g, p, x, y, z, w, d) \<Rightarrow> (2 * (102 - d), 0)
        | Inr (Inl (g, n, x, y, z, so, w, d)) \<Rightarrow> (2 * (102 - d) + 1, 0)
        | Inr (Inr (g, n, is, x, y, z, w, d)) \<Rightarrow> (2 * (102 - d), Suc (length is)))")
     (auto simp: MAX_RECURSION_DEPTH_def)

declare evaluatePort.simps [simp del] evaluateNode.simps [simp del]

text \<open>\<open>evaluateTerrain\<close>: \<open>None\<close> is \<open>null\<close>; the \<open>catch\<close> turns any exception into it.\<close>

definition evaluateTerrain :: "graph \<Rightarrow> real \<Rightarrow> real \<Rightarrow> real \<Rightarrow> val option" where
  "evaluateTerrain g x y z =
     (case getOutputNode g of
        None \<Rightarrow> None
      | Some outputNode \<Rightarrow>
          (case node_inputs outputNode of
             [] \<Rightarrow> None
           | input # _ \<Rightarrow>
               (case find (\<lambda>c. conn_to c = port_id input) (connections g) of
                  None \<Rightarrow> None
                | Some connection \<Rightarrow>
                    (case evaluatePort g (port_id input) x y z ({}, []) 0 of
                       Inl e \<Rightarrow> None
                     | Inr (v, w) \<Rightarrow> Some v))))"

text \<open>
  The loops of \<open>NoisePerlin2D\<close>, \<open>NoisePerlin3D\<close> and \<open>mandelbrot\<close> count with a
  double. They end when the octave count is at most \<open>2^53\<close> and the step count is
  below \<open>2^53\<close>: every value the counter takes is then an integer that a double holds.
  Beyond, \<open>i++\<close> stops changing \<open>i\<close> and the loop of the source does not end, whereas
  the integer counter of the functions above goes on. \<open>loops_bounded\<close> is the
  condition on the parameters of a graph under which the two agree.
\<close>

definition loops_end :: "params \<Rightarrow> bool" where
  "loops_end ps =
     (case ps of
        NoiseParams np \<Rightarrow> np_octaves np \<le> 2 ^ 53
      | MandelbrotParams scale offsetX offsetZ steps rm remapMin remapMax \<Rightarrow> steps < 2 ^ 53
      | _ \<Rightarrow> True)"

definition loops_bounded :: "graph \<Rightarrow> bool" where
  "loops_bounded g = list_all (\<lambda>n. loops_end (node_params n)) (nodes g)"


section \<open>Graphs built by the operations, and examples\<close>

definition empty_graph :: graph where
  "empty_graph = \<lparr>nodes = [], connections = [], nextNodeId = 1\<rparr>"

text \<open>One \<open>add\<close> node, with id \<open>1\<close>.\<close>

definition one_node_graph :: graph where
  "one_node_graph = snd (addNode empty_graph ''add'' 0 0 0)"

text \<open>
  The nodes of a graph come from \<open>addNode\<close>, which fixes their port lists:
  \<open>created_by_addNode\<close> says that a node has the layout of its type and id. A port
  belongs to a node (\<open>owns\<close>) when it is one of its inputs or outputs.
\<close>

definition created_by_addNode :: "node \<Rightarrow> bool" where
  "created_by_addNode n =
     (node_inputs n = default_inputs (node_type n) (node_id n)
      \<and> node_outputs n = default_outputs (node_type n) (node_id n))"

definition owns :: "node \<Rightarrow> string \<Rightarrow> bool" where
  "owns n p = list_ex (\<lambda>q. port_id q = p) (node_inputs n @ node_outputs n)"

definition touches :: "connection \<Rightarrow> node \<Rightarrow> bool" where
  "touches c n = (owns n (conn_from c) \<or> owns n (conn_to c))"

text \<open>
  \<open>new_node i ty\<close> is the node that \<open>addNode\<close> creates for type \<open>ty\<close> when the
  counter stands at \<open>i\<close>. \<open>cascade_graph\<close> has two terrain types \<open>1\<close> and \<open>12\<close>
  feeding the compare node \<open>13\<close>; \<open>linked_graph\<close> has two \<open>abs\<close> nodes, the first
  feeding the second.
\<close>

definition new_node :: "nat \<Rightarrow> string \<Rightarrow> node" where
  "new_node i ty = fst (addNode \<lparr>nodes = [], connections = [], nextNodeId = i\<rparr> ty 0 0 0)"

definition cascade_graph :: graph where
  "cascade_graph =
     \<lparr>nodes = [new_node 1 ''terrain-type'', new_node 12 ''terrain-type'', new_node 13 ''compare''],
      connections = [\<lparr>conn_from = ''12_out'', conn_to = ''13_useTrue''\<rparr>,
                     \<lparr>conn_from = ''1_out'', conn_to = ''13_useFalse''\<rparr>],
      nextNodeId = 14\<rparr>"

definition linked_graph :: graph where
  "linked_graph =
     \<lparr>nodes = [new_node 1 ''abs'', new_node 2 ''abs''],
      connections = [\<lparr>conn_from = ''1_out'', conn_to = ''2_in''\<rparr>],
      nextNodeId = 3\<rparr>"

text \<open>
  Parameter records: \<open>test_np\<close> is the one of the test suite. On doubles,
  \<open>abs_test_np_d\<close> is the same record with the ABSVALUE flag added,
  \<open>abs_np_d\<close> has the ABSVALUE flag and a negative offset, and
  \<open>overflow_np_d\<close> is \<open>abs_test_np_d\<close> with the spread \<open>0.5\<close> in \<open>x\<close>.
\<close>

definition test_np :: noise_params where
  "test_np = \<lparr>np_offset = 0, np_scale = 1, np_spread_x = 100, np_spread_y = 100,
     np_spread_z = 100, np_seed = 42, np_octaves = 3, np_persist = 1 / 2,
     np_lacunarity = 2, np_flags = 1\<rparr>"

definition abs_test_np_d :: noise_params_d where
  "abs_test_np_d = \<lparr>npd_offset = Fin 0, npd_scale = Fin 1, npd_spread_x = Fin 100,
     npd_spread_y = Fin 100, npd_spread_z = Fin 100, npd_seed = Fin 42, npd_octaves = 3,
     npd_persist = Fin (1 / 2), npd_lacunarity = Fin 2, npd_flags = 5\<rparr>"

definition abs_np_d :: noise_params_d where
  "abs_np_d = \<lparr>npd_offset = Fin (- 1), npd_scale = Fin 1, npd_spread_x = Fin 1,
     npd_spread_y = Fin 1, npd_spread_z = Fin 1, npd_seed = Fin 0, npd_octaves = 1,
     npd_persist = Fin (1 / 2), npd_lacunarity = Fin 2, npd_flags = 4\<rparr>"

definition overflow_np_d :: noise_params_d where
  "overflow_np_d = abs_test_np_d\<lparr>npd_spread_x := Fin (1 / 2)\<rparr>"

text \<open>
  \<open>stone_graph\<close>: a terrain type feeding the terrain output. \<open>compare_graph\<close>: a
  compare node with its default parameters and no other input feeding the terrain
  output.
\<close>

definition stone_graph :: graph where
  "stone_graph =
     \<lparr>nodes = [new_node 1 ''terrain-output'', new_node 2 ''terrain-type''],
      connections = [\<lparr>conn_from = ''2_out'', conn_to = ''1_in''\<rparr>],
      nextNodeId = 3\<rparr>"

definition compare_graph :: graph where
  "compare_graph =
     \<lparr>nodes = [new_node 1 ''terrain-output'', new_node 2 ''compare''],
      connections = [\<lparr>conn_from = ''2_out'', conn_to = ''1_in''\<rparr>],
      nextNodeId = 3\<rparr>"

text \<open>
  \<open>text_graph\<close>: a terrain type feeding the first input of an add node, which feeds
  the terrain output.
\<close>

definition text_graph :: graph where
  "text_graph =
     \<lparr>nodes = [new_node 1 ''terrain-output'', new_node 2 ''add'', new_node 3 ''terrain-type''],
      connections = [\<lparr>conn_from = ''3_out'', conn_to = ''2_in1''\<rparr>,
                     \<lparr>conn_from = ''2_out'', conn_to = ''1_in''\<rparr>],
      nextNodeId = 4\<rparr>"

text \<open>
  \<open>output_only_graph\<close>: a terrain output with nothing connected to it. \<open>stone\<close> is
  the descriptor of a terrain type with its default parameters.
\<close>

definition output_only_graph :: graph where
  "output_only_graph =
     \<lparr>nodes = [new_node 1 ''terrain-output''], connections = [], nextNodeId = 2\<rparr>"

definition stone :: val where
  "stone = Obj \<lparr>d_name = Some ''Stone'', d_type = Some ''solid'', d_color = Some ''#888888''\<rparr>"

text \<open>
  \<open>orphan_graph\<close>: \<open>stone_graph\<close> with a second terrain type that is connected to
  nothing. \<open>stub_generate\<close> stands for the code generator that runs after validation.
\<close>

definition orphan_graph :: graph where
  "orphan_graph =
     \<lparr>nodes = [new_node 1 ''terrain-output'', new_node 2 ''terrain-type'',
               new_node 3 ''terrain-type''],
      connections = [\<lparr>conn_from = ''2_out'', conn_to = ''1_in''\<rparr>],
      nextNodeId = 4\<rparr>"

definition stub_generate :: "graph \<Rightarrow> error + export_result" where
  "stub_generate g = Inr \<lparr>ex_code = Some [], ex_valid = True, ex_errors = [], ex_warnings = Some []\<rparr>"

section \<open>Properties of the noise core\<close>

lemma round_double_exact: "\<bar>v\<bar> < 2 ^ 53 \<Longrightarrow> round_double v = v"
proof -
  assume "\<bar>v\<bar> < 2 ^ 53"
  then have "nat \<bar>v\<bar> < 2 ^ 53" by (simp add: nat_less_iff)
  then have "excess_bits (nat \<bar>v\<bar>) = 0" by (subst excess_bits.simps) simp
  then show ?thesis by (simp add: round_double_def)
qed

lemma round_double_32089126166801249: "round_double 32089126166801249 = 32089126166801248"
  by (simp add: round_double_def excess_bits.simps Let_def)

lemma noise_mix_8095: "noise_mix 8095 = 1716726624"
proof -
  have s: "sint (signed_drop_bit 13 (8095 :: 32 word) XOR 8095) = 8095" by simp
  have m1: "js_mul 8095 8095 = 65529025" by (simp add: js_mul_def round_double_exact)
  have m2: "js_mul 65529025 60493 = 3964047309325" by (simp add: js_mul_def round_double_exact)
  have m3: "js_add 3964047309325 19990303 = 3964067299628"
    by (simp add: js_add_def round_double_exact)
  have m4: "js_mul 8095 3964067299628 = 32089124790488660"
    by (simp add: js_mul_def round_double_def excess_bits.simps Let_def)
  have m5: "js_add 32089124790488660 1376312589 = 32089126166801248"
    by (simp add: js_add_def round_double_32089126166801249)
  show ?thesis
    unfolding noise_mix_def Let_def s m1 m2 m3 m4 m5 by (simp add: to_int32_def)
qed

text \<open>
  Claim C4 (lattice hash bit-exactness). The hash is to be the 32-bit wrap-around
  computation \<open>latticeHash2D\<close>. At \<open>(x, y, seed) = (5, 0, 0)\<close> the first line gives
  \<open>n = 8095\<close>; the product \<open>n * (n * n * 60493 + 19990303)\<close> is
  \<open>32089124790488660\<close>, beyond \<open>2^53\<close>, and adding \<open>1376312589\<close> to it on doubles
  rounds the odd sum \<open>32089126166801249\<close> to \<open>32089126166801248\<close>. \<open>noise2d\<close> thus
  returns \<open>1 - 1716726624 / 2^30\<close>, where wrap-around arithmetic gives
  \<open>1 - 1716726625 / 2^30\<close>.
\<close>

theorem noise2d_not_wraparound:
  "noise2d 5 0 0 = 1 - 1716726624 / 2 ^ 30
   \<and> latticeHash2D 5 0 0 = 1 - 1716726625 / 2 ^ 30
   \<and> noise2d 5 0 0 \<noteq> latticeHash2D 5 0 0"
proof -
  have "js_add (js_add (js_mul NOISE_MAGIC_X 5) (js_mul NOISE_MAGIC_Y 0))
          (js_mul NOISE_MAGIC_SEED 0) = 8095"
    by (simp add: js_mul_def js_add_def round_double_exact NOISE_MAGIC_X_def)
  then have code: "noise2d 5 0 0 = 1 - 1716726624 / 2 ^ 30"
    by (simp add: noise2d_def Let_def to_int32_def noise_mix_8095)
  have spec: "latticeHash2D 5 0 0 = 1 - 1716726625 / 2 ^ 30"
    by (simp add: latticeHash2D_def latticeHash_mix_def Let_def)
  show ?thesis unfolding code spec by simp
qed

lemma octaves2D_closed:
  "octaves2D np x y seed i a f g =
     a + (\<Sum>j<nat (np_octaves np - i).
            g * np_persist np ^ j *
              (let v = noise2d_gradient (x * (f * np_lacunarity np ^ j))
                         (y * (f * np_lacunarity np ^ j)) (seed + i + int j)
                         (np_flags np AND (NOISE_FLAG_DEFAULTS OR NOISE_FLAG_EASED) \<noteq> 0)
               in if np_flags np AND NOISE_FLAG_ABSVALUE \<noteq> 0 then \<bar>v\<bar> else v))"
proof (induction "nat (np_octaves np - i)" arbitrary: i a f g)
  case 0
  then have "\<not> i < np_octaves np" by simp
  then show ?case using 0 by (subst octaves2D.simps) simp
next
  case (Suc m)
  then have lt: "i < np_octaves np" and m: "m = nat (np_octaves np - (i + 1))" by linarith+
  have n: "nat (np_octaves np - i) = Suc m" using Suc by simp
  show ?case
    apply (subst octaves2D.simps)
    apply (simp only: lt if_True Let_def)
    apply (subst Suc.hyps(1) [OF m])
    apply (simp only: n m [symmetric] sum.lessThan_Suc_shift)
    apply (simp add: algebra_simps)
    done
qed

lemma octaves3D_closed:
  "octaves3D np x y z seed i a f g =
     a + (\<Sum>j<nat (np_octaves np - i).
            g * np_persist np ^ j *
              (let v = noise3d_gradient (x * (f * np_lacunarity np ^ j))
                         (y * (f * np_lacunarity np ^ j)) (z * (f * np_lacunarity np ^ j))
                         (seed + i + int j)
                         (np_flags np AND NOISE_FLAG_EASED \<noteq> 0)
               in if np_flags np AND NOISE_FLAG_ABSVALUE \<noteq> 0 then \<bar>v\<bar> else v))"
proof (induction "nat (np_octaves np - i)" arbitrary: i a f g)
  case 0
  then have "\<not> i < np_octaves np" by simp
  then show ?case using 0 by (subst octaves3D.simps) simp
next
  case (Suc m)
  then have lt: "i < np_octaves np" and m: "m = nat (np_octaves np - (i + 1))" by linarith+
  have n: "nat (np_octaves np - i) = Suc m" using Suc by simp
  show ?case
    apply (subst octaves3D.simps)
    apply (simp only: lt if_True Let_def)
    apply (subst Suc.hyps(1) [OF m])
    apply (simp only: n m [symmetric] sum.lessThan_Suc_shift)
    apply (simp add: algebra_simps)
    done
qed

lemma octaves2D_sum:
  "octaves2D np x y seed 0 0 1 1 =
     octave_sum2D (np_flags np AND (NOISE_FLAG_DEFAULTS OR NOISE_FLAG_EASED) \<noteq> 0) np x y seed"
  by (simp add: octaves2D_closed octave_sum2D_def)

lemma octaves3D_sum:
  "octaves3D np x y z seed 0 0 1 1 =
     octave_sum3D (np_flags np AND NOISE_FLAG_EASED \<noteq> 0) np x y z seed"
  by (simp add: octaves3D_closed octave_sum3D_def)

text \<open>
  Claim C6 (easing-flag asymmetry). Unless a spread is zero, the 2D fractal noise is
  \<open>offset + sum * scale\<close> where every octave of the sum is sampled with
  \<open>eased = ((flags & (DEFAULTS | EASED)) != 0)\<close>, and the 3D fractal noise is the
  same with \<open>eased = ((flags & EASED) != 0)\<close>. With \<open>flags = DEFAULTS\<close> the 2D
  samples are eased and the 3D samples are not.
\<close>

theorem easing_flag_asymmetry:
  "NoisePerlin2D np x y seed =
     (if np_spread_x np = 0 \<or> np_spread_y np = 0
      then (if 0 < np_octaves np then None else Some (np_offset np))
      else Some (np_offset np
                 + octave_sum2D (np_flags np AND (NOISE_FLAG_DEFAULTS OR NOISE_FLAG_EASED) \<noteq> 0)
                     np (x / np_spread_x np) (y / np_spread_y np) (seed + np_seed np)
                   * np_scale np))
   \<and> NoisePerlin3D np x y z seed =
     (if np_spread_x np = 0 \<or> np_spread_y np = 0 \<or> np_spread_z np = 0
      then (if 0 < np_octaves np then None else Some (np_offset np))
      else Some (np_offset np
                 + octave_sum3D (np_flags np AND NOISE_FLAG_EASED \<noteq> 0)
                     np (x / np_spread_x np) (y / np_spread_y np) (z / np_spread_z np)
                     (seed + np_seed np)
                   * np_scale np))
   \<and> (np_flags np = NOISE_FLAG_DEFAULTS
          \<and> np_spread_x np \<noteq> 0 \<and> np_spread_y np \<noteq> 0 \<and> np_spread_z np \<noteq> 0 \<longrightarrow>
        NoisePerlin2D np x y seed =
          Some (np_offset np
                + octave_sum2D True np (x / np_spread_x np) (y / np_spread_y np)
                    (seed + np_seed np) * np_scale np)
        \<and> NoisePerlin3D np x y z seed =
          Some (np_offset np
                + octave_sum3D False np (x / np_spread_x np) (y / np_spread_y np)
                    (z / np_spread_z np) (seed + np_seed np) * np_scale np))"
  by (simp add: NoisePerlin2D_def NoisePerlin3D_def Let_def octaves2D_sum octaves3D_sum
      NOISE_FLAG_DEFAULTS_def NOISE_FLAG_EASED_def)

theorem easing_flag_asymmetry_witness:
  "np_flags test_np = NOISE_FLAG_DEFAULTS
   \<and> np_spread_x test_np \<noteq> 0 \<and> np_spread_y test_np \<noteq> 0 \<and> np_spread_z test_np \<noteq> 0
   \<and> NoisePerlin2D test_np 100 100 42 = Some (octave_sum2D True test_np 1 1 84)
   \<and> NoisePerlin3D test_np 100 100 100 42 = Some (octave_sum3D False test_np 1 1 1 84)"
  using easing_flag_asymmetry [of test_np 100 100 42 100, THEN conjunct2, THEN conjunct2]
  by (simp add: test_np_def NOISE_FLAG_DEFAULTS_def)

lemma octaves2D_params:
  "octaves2D (np\<lparr>np_offset := off, np_scale := s\<rparr>) x y seed i a f g
     = octaves2D np x y seed i a f g"
  by (simp add: octaves2D_closed)

lemma octaves3D_params:
  "octaves3D (np\<lparr>np_offset := off, np_scale := s\<rparr>) x y z seed i a f g
     = octaves3D np x y z seed i a f g"
  by (simp add: octaves3D_closed)

text \<open>
  Claim C8 (linearity in scale). With \<open>offset = 0\<close>, multiplying \<open>scale\<close> by \<open>k\<close>
  multiplies the result by \<open>k\<close> (a \<open>NaN\<close> stays a \<open>NaN\<close>). Unless a spread is
  zero, the result for any \<open>offset\<close> and \<open>scale\<close> is \<open>offset + a * scale\<close>, where
  \<open>a\<close> is the value of the octave loop, which reads neither of the two.
\<close>

theorem fractal_noise_linear_in_scale:
  "(np_offset np = 0 \<longrightarrow>
      NoisePerlin2D (np\<lparr>np_scale := k * np_scale np\<rparr>) x y seed
        = map_option (\<lambda>v. k * v) (NoisePerlin2D np x y seed)
      \<and> NoisePerlin3D (np\<lparr>np_scale := k * np_scale np\<rparr>) x y z seed
        = map_option (\<lambda>v. k * v) (NoisePerlin3D np x y z seed))
   \<and> (np_spread_x np \<noteq> 0 \<and> np_spread_y np \<noteq> 0 \<longrightarrow>
        NoisePerlin2D (np\<lparr>np_offset := off, np_scale := s\<rparr>) x y seed
          = Some (off + octaves2D np (x / np_spread_x np) (y / np_spread_y np)
                          (seed + np_seed np) 0 0 1 1 * s))
   \<and> (np_spread_x np \<noteq> 0 \<and> np_spread_y np \<noteq> 0 \<and> np_spread_z np \<noteq> 0 \<longrightarrow>
        NoisePerlin3D (np\<lparr>np_offset := off, np_scale := s\<rparr>) x y z seed
          = Some (off + octaves3D np (x / np_spread_x np) (y / np_spread_y np)
                          (z / np_spread_z np) (seed + np_seed np) 0 0 1 1 * s))"
proof -
  have a: "octaves2D (np\<lparr>np_scale := s'\<rparr>) x' y' seed' i a f g = octaves2D np x' y' seed' i a f g"
    for s' x' y' seed' i a f g
    by (simp add: octaves2D_closed)
  have b: "octaves3D (np\<lparr>np_scale := s'\<rparr>) x' y' z' seed' i a f g
             = octaves3D np x' y' z' seed' i a f g"
    for s' x' y' z' seed' i a f g
    by (simp add: octaves3D_closed)
  show ?thesis
    by (simp add: NoisePerlin2D_def NoisePerlin3D_def Let_def a b octaves2D_params
        octaves3D_params)
qed

theorem fractal_noise_linear_in_scale_witness:
  "np_offset test_np = 0
   \<and> np_spread_x test_np \<noteq> 0 \<and> np_spread_y test_np \<noteq> 0 \<and> np_spread_z test_np \<noteq> 0
   \<and> NoisePerlin2D (test_np\<lparr>np_scale := 2\<rparr>) 100 100 42
       = map_option (\<lambda>v. 2 * v) (NoisePerlin2D test_np 100 100 42)
   \<and> NoisePerlin3D (test_np\<lparr>np_scale := 2\<rparr>) 100 100 100 42
       = map_option (\<lambda>v. 2 * v) (NoisePerlin3D test_np 100 100 100 42)
   \<and> NoisePerlin2D test_np 100 100 42 = Some (octaves2D test_np 1 1 84 0 0 1 1)
   \<and> NoisePerlin3D test_np 100 100 100 42 = Some (octaves3D test_np 1 1 1 84 0 0 1 1)"
proof -
  have eq: "test_np\<lparr>np_offset := 0, np_scale := 1\<rparr> = test_np"
    and sc: "np_scale test_np = 1"
    by (simp_all add: test_np_def)
  show ?thesis
    using fractal_noise_linear_in_scale
      [where np = test_np and k = 2 and x = 100 and y = 100 and z = 100 and seed = 42
         and off = 0 and s = 1]
    by (simp add: eq sc) (simp add: test_np_def)
qed

lemma noise_mix_0: "noise_mix 0 = 1376312589"
  by (simp add: noise_mix_def js_mul_def js_add_def round_double_exact to_int32_def)

section \<open>Properties of the noise on doubles\<close>

text \<open>
  The exponent that \<open>binade\<close> finds stays in the range of a double, and it is the
  exponent of the binade of its argument unless that lies beyond the range.
\<close>

lemma binade_range:
  "- 1022 \<le> e \<Longrightarrow> e \<le> 1023 \<Longrightarrow> - 1022 \<le> binade a e \<and> binade a e \<le> 1023"
proof (induction a e rule: binade.induct)
  case (1 a e)
  show ?case
  proof (cases "2 \<le> a \<and> e < 1023")
    case True
    then show ?thesis using 1 by (subst binade.simps, subst (2) binade.simps) auto
  next
    case False
    note up = this
    show ?thesis
    proof (cases "a < 1 \<and> - 1022 < e")
      case True
      then show ?thesis using 1 up by (subst binade.simps, subst (2) binade.simps) auto
    next
      case False
      then show ?thesis using 1 up by (subst binade.simps, subst (2) binade.simps) auto
    qed
  qed
qed

lemma binade_spec:
  "0 < a \<Longrightarrow>
     (binade a e < 1023 \<longrightarrow> a * 2 powi e < 2 * 2 powi (binade a e))
     \<and> (- 1022 < binade a e \<longrightarrow> 2 powi (binade a e) \<le> a * 2 powi e)"
proof (induction a e rule: binade.induct)
  case (1 a e)
  have p: "(2::real) powi (e + 1) = 2 * 2 powi e" "(2::real) powi (e - 1) = 2 powi e / 2"
    by (simp_all add: power_int_add power_int_diff)
  show ?case
  proof (cases "2 \<le> a \<and> e < 1023")
    case True
    then have "binade a e = binade (a / 2) (e + 1)" by (subst binade.simps) simp
    then show ?thesis using 1(1) [OF True] 1(3) by (simp add: p)
  next
    case False
    note up = this
    show ?thesis
    proof (cases "a < 1 \<and> - 1022 < e")
      case True
      then have "binade a e = binade (2 * a) (e - 1)" using up by (subst binade.simps) simp
      then show ?thesis using 1(2) [OF up True] 1(3) by (simp add: p)
    next
      case False
      then have "binade a e = e" using up by (subst binade.simps) auto
      then show ?thesis using up False 1(3) by auto
    qed
  qed
qed

lemma round_half_even_int [simp]: "round_half_even (of_int j) = j"
  by (simp add: round_half_even_def)

lemma round_half_even_nonneg: "0 \<le> m \<Longrightarrow> 0 \<le> round_half_even m"
  by (auto simp: round_half_even_def Let_def)

lemma ulp_pos: "0 < ulp a"
  by (simp add: ulp_def)

text \<open>
  Rounding at work: \<open>2^53 + 1\<close> and \<open>2^53 + 3\<close> lie halfway between two doubles and
  go to the one with the even significand; \<open>1 / 3\<close> goes to the double that JavaScript
  prints as \<open>0.3333333333333333\<close>.
\<close>

lemma to_double_examples:
  "to_double 9007199254740993 = Fin 9007199254740992
   \<and> to_double 9007199254740995 = Fin 9007199254740996
   \<and> to_double (- 9007199254740993) = Fin (- 9007199254740992)
   \<and> to_double (1 / 3) = Fin (6004799503160661 / 2 ^ 54)"
  by (simp add: to_double_def ulp_def binade.simps round_half_even_def Let_def)

text \<open>A real \<open>k / 2^n\<close> with a significand \<open>k\<close> of at most 53 bits is a double.\<close>

lemma to_double_dyadic:
  assumes k: "k \<noteq> 0" "\<bar>k\<bar> < 2 ^ 53" and n: "n \<le> 1074"
  shows "to_double (of_int k / 2 ^ n) = Fin (of_int k / 2 ^ n)"
proof -
  define a :: real where "a = of_int \<bar>k\<bar> / 2 ^ n"
  define e where "e = binade a 0"
  have a_pos: "0 < a" using k by (simp add: a_def)
  have abs: "\<bar>of_int k / 2 ^ n :: real\<bar> = a" by (simp add: a_def)
  have range: "- 1022 \<le> e" "e \<le> 1023" using binade_range [of 0 a] by (simp_all add: e_def)
  have a_lt: "a < 2 powi (53 - int n)"
  proof -
    have "real_of_int \<bar>k\<bar> < 2 ^ 53" using k(2) by (metis of_int_less_numeral_power_cancel_iff)
    then have "a < 2 ^ 53 / 2 ^ n" by (simp add: a_def divide_strict_right_mono)
    also have "\<dots> = 2 powi (53 - int n)" by (simp add: power_int_diff)
    finally show ?thesis .
  qed
  have e_le: "e \<le> 52 - int n"
  proof (cases "- 1022 < e")
    case True
    then have "2 powi e \<le> a" using binade_spec [OF a_pos, of 0] by (simp add: e_def)
    then have "(2::real) powi e < 2 powi (53 - int n)" using a_lt by simp
    moreover have "(2::real) powi (53 - int n) \<le> 2 powi e" if "53 - int n \<le> e"
      using that by (intro power_int_increasing) simp_all
    ultimately have "e < 53 - int n" by fastforce
    then show ?thesis by simp
  next
    case False
    then show ?thesis using range n by simp
  qed
  define j where "j = \<bar>k\<bar> * 2 ^ nat (52 - e - int n)"
  have q: "a / ulp a = of_int j"
  proof -
    have u: "ulp a = 2 powi (e - 52)" by (simp add: ulp_def e_def)
    have "(2::real) powi (52 - e) * 2 powi (e - 52) = 1"
      by (simp flip: power_int_add)
    then have "1 / 2 powi (e - 52) = (2::real) powi (52 - e)"
      by (simp add: field_simps)
    then have "a / ulp a = a * 2 powi (52 - e)"
      by (simp add: u field_simps)
    also have "\<dots> = of_int \<bar>k\<bar> * (2 powi (52 - e) / 2 ^ n)"
      by (simp add: a_def)
    finally have "a / ulp a = of_int \<bar>k\<bar> * (2 powi (52 - e) / 2 ^ n)" .
    also have "(2::real) powi (52 - e) / 2 ^ n = 2 powi (52 - e - int n)"
      by (simp add: power_int_diff)
    also have "\<dots> = 2 ^ nat (52 - e - int n)"
      using e_le by (simp add: power_int_def)
    finally show ?thesis by (simp add: j_def)
  qed
  have m: "of_int (round_half_even (a / ulp a)) * ulp a = a"
  proof -
    have "of_int j * ulp a = a / ulp a * ulp a" by (simp only: q)
    also have "\<dots> = a" using ulp_pos [of a] by simp
    finally show ?thesis by (simp add: q)
  qed
  have small: "a < 2 ^ 1024"
  proof -
    have "a < 2 powi (53 - int n)" by (rule a_lt)
    also have "\<dots> \<le> 2 powi 53" by (rule power_int_increasing) simp_all
    also have "\<dots> \<le> (2::real) ^ 1024" by simp
    finally show ?thesis .
  qed
  have x_neg: "(of_int k / 2 ^ n :: real) < 0 \<longleftrightarrow> k < 0"
    by (simp add: divide_less_0_iff)
  have val: "(if k < 0 then - a else a) = of_int k / 2 ^ n"
    by (simp add: a_def)
  have "a \<noteq> 0" "\<not> 2 ^ 1024 \<le> a" using a_pos small by simp_all
  then show ?thesis
    unfolding to_double_def Let_def abs m x_neg by (simp only: if_False val)
qed

lemma to_double_nonneg: "0 \<le> x \<Longrightarrow> ge_zero_d (to_double x)"
proof -
  assume x: "0 \<le> x"
  have "0 \<le> of_int (round_half_even (\<bar>x\<bar> / ulp \<bar>x\<bar>)) * ulp \<bar>x\<bar>"
    using ulp_pos [of "\<bar>x\<bar>"] round_half_even_nonneg [of "\<bar>x\<bar> / ulp \<bar>x\<bar>"] by simp
  then show ?thesis using x by (simp add: to_double_def Let_def ge_zero_d_def)
qed

lemma nan_or_ge_zero_add:
  "nan_or_ge_zero a \<Longrightarrow> nan_or_ge_zero b \<Longrightarrow> nan_or_ge_zero (add_d a b)"
  by (cases a; cases b)
    (auto simp: nan_or_ge_zero_def ge_zero_d_def add_d_def is_inf_def real_of_def zero_d_def
      Let_def to_double_nonneg [unfolded ge_zero_d_def])

lemma nan_or_ge_zero_mul:
  "nan_or_ge_zero a \<Longrightarrow> nan_or_ge_zero b \<Longrightarrow> nan_or_ge_zero (mul_d a b)"
  by (cases a; cases b)
    (auto simp: nan_or_ge_zero_def ge_zero_d_def mul_d_def is_inf_def is_zero_def is_neg_def
      real_of_def zero_d_def inf_d_def Let_def to_double_nonneg [unfolded ge_zero_d_def])

lemma nan_or_ge_zero_abs: "nan_or_ge_zero (abs_d v)"
  by (cases v) (auto simp: nan_or_ge_zero_def ge_zero_d_def abs_d_def)

lemma octaves2D_d_nonneg:
  "npd_flags np AND NOISE_FLAG_ABSVALUE \<noteq> 0 \<Longrightarrow> nan_or_ge_zero (npd_persist np)
     \<Longrightarrow> nan_or_ge_zero a \<Longrightarrow> nan_or_ge_zero g
     \<Longrightarrow> nan_or_ge_zero (octaves2D_d np x y seed i a f g)"
proof (induction np x y seed i a f g rule: octaves2D_d.induct)
  case (1 np x y seed i a f g)
  show ?case
  proof (cases "i < npd_octaves np")
    case True
    define nv0 where
      "nv0 = noise2d_gradient_d (mul_d x f) (mul_d y f) (add_d seed (of_int_d i))
               (npd_flags np AND (NOISE_FLAG_DEFAULTS OR NOISE_FLAG_EASED) \<noteq> 0)"
    define nv where
      "nv = (if npd_flags np AND NOISE_FLAG_ABSVALUE \<noteq> 0 then abs_d nv0 else nv0)"
    have "nan_or_ge_zero nv"
      using "1.prems"(1) by (simp add: nv_def nan_or_ge_zero_abs)
    then have "nan_or_ge_zero (octaves2D_d np x y seed (i + 1) (add_d a (mul_d g nv))
                 (mul_d f (npd_lacunarity np)) (mul_d g (npd_persist np)))"
      by (intro "1.IH" [OF True nv0_def nv_def] nan_or_ge_zero_add nan_or_ge_zero_mul "1.prems")
    moreover have "octaves2D_d np x y seed i a f g =
        octaves2D_d np x y seed (i + 1) (add_d a (mul_d g nv))
          (mul_d f (npd_lacunarity np)) (mul_d g (npd_persist np))"
      using True by (subst octaves2D_d.simps) (simp add: Let_def nv_def nv0_def)
    ultimately show ?thesis by simp
  next
    case False
    then show ?thesis using "1.prems" by (subst octaves2D_d.simps) simp
  qed
qed

lemma octaves3D_d_nonneg:
  "npd_flags np AND NOISE_FLAG_ABSVALUE \<noteq> 0 \<Longrightarrow> nan_or_ge_zero (npd_persist np)
     \<Longrightarrow> nan_or_ge_zero a \<Longrightarrow> nan_or_ge_zero g
     \<Longrightarrow> nan_or_ge_zero (octaves3D_d np x y z seed i a f g)"
proof (induction np x y z seed i a f g rule: octaves3D_d.induct)
  case (1 np x y z seed i a f g)
  show ?case
  proof (cases "i < npd_octaves np")
    case True
    define nv0 where
      "nv0 = noise3d_gradient_d (mul_d x f) (mul_d y f) (mul_d z f)
               (add_d seed (of_int_d i)) (npd_flags np AND NOISE_FLAG_EASED \<noteq> 0)"
    define nv where
      "nv = (if npd_flags np AND NOISE_FLAG_ABSVALUE \<noteq> 0 then abs_d nv0 else nv0)"
    have "nan_or_ge_zero nv"
      using "1.prems"(1) by (simp add: nv_def nan_or_ge_zero_abs)
    then have "nan_or_ge_zero (octaves3D_d np x y z seed (i + 1) (add_d a (mul_d g nv))
                 (mul_d f (npd_lacunarity np)) (mul_d g (npd_persist np)))"
      by (intro "1.IH" [OF True nv0_def nv_def] nan_or_ge_zero_add nan_or_ge_zero_mul "1.prems")
    moreover have "octaves3D_d np x y z seed i a f g =
        octaves3D_d np x y z seed (i + 1) (add_d a (mul_d g nv))
          (mul_d f (npd_lacunarity np)) (mul_d g (npd_persist np))"
      using True by (subst octaves3D_d.simps) (simp add: Let_def nv_def nv0_def)
    ultimately show ?thesis by simp
  next
    case False
    then show ?thesis using "1.prems" by (subst octaves3D_d.simps) simp
  qed
qed

lemma masked_range:
  "0 \<le> sint (w AND (0x7fffffff :: 32 word)) \<and> sint (w AND (0x7fffffff :: 32 word)) < 2 ^ 31"
proof -
  have "\<not> bit (w AND (0x7fffffff :: 32 word)) (LENGTH(32) - Suc 0)"
    by (simp add: bit_and_iff)
  then have "0 \<le> sint (w AND 0x7fffffff)"
    unfolding bit_last_iff by simp
  moreover have "sint (w AND 0x7fffffff) < 2 ^ 31"
    using sint_lt [of "w AND 0x7fffffff"] by simp
  ultimately show ?thesis by simp
qed

lemma noise_mix_range: "0 \<le> sint (noise_mix n) \<and> sint (noise_mix n) < 2 ^ 31"
  unfolding noise_mix_def Let_def by (rule masked_range)

lemma sub_d_Fin: "sub_d (Fin a) (Fin b) = (if a - b = 0 then Fin 0 else to_double (a - b))"
  by (simp add: sub_d_def add_d_def neg_d_def is_inf_def real_of_def zero_d_def Let_def)

text \<open>
  A lattice value is \<open>1 - n / 2^30\<close> for an integer \<open>0 \<le> n < 2^31\<close>, computed without
  rounding error.
\<close>

lemma lattice_value:
  assumes "0 \<le> n" "n < 2 ^ 31"
  shows "sub_d (Fin 1) (div_d (of_int_d n) (Fin 0x40000000)) = Fin (of_int (2 ^ 30 - n) / 2 ^ 30)"
proof -
  have d: "div_d (of_int_d n) (Fin 0x40000000) = Fin (of_int n / 2 ^ 30)"
  proof (cases "n = 0")
    case True
    then show ?thesis
      by (simp add: div_d_def of_int_d_def is_inf_def is_zero_def is_neg_def zero_d_def)
  next
    case False
    then have "to_double (of_int n / 2 ^ 30) = Fin (of_int n / 2 ^ 30)"
      using assms by (intro to_double_dyadic) simp_all
    then show ?thesis using False
      by (simp add: div_d_def of_int_d_def is_inf_def is_zero_def is_neg_def real_of_def)
  qed
  have s: "1 - real_of_int n / 2 ^ 30 = of_int (2 ^ 30 - n) / 2 ^ 30"
    by (simp add: field_simps)
  show ?thesis
  proof (cases "n = 2 ^ 30")
    case True
    then show ?thesis unfolding d sub_d_Fin s by simp
  next
    case False
    then have "to_double (of_int (2 ^ 30 - n) / 2 ^ 30) = Fin (of_int (2 ^ 30 - n) / 2 ^ 30)"
      using assms by (intro to_double_dyadic) simp_all
    then show ?thesis unfolding d sub_d_Fin s by simp
  qed
qed

lemma noise2d_d_lattice_value: "is_lattice_value (noise2d_d x y seed)"
proof -
  obtain n where n: "0 \<le> n" "n < 2 ^ 31"
    and v: "noise2d_d x y seed = sub_d (Fin 1) (div_d (of_int_d n) (Fin 0x40000000))"
    using noise_mix_range unfolding noise2d_d_def Let_def by blast
  have "\<bar>2 ^ 30 - n\<bar> \<le> 2 ^ 30" using n by simp
  then show ?thesis unfolding v lattice_value [OF n] is_lattice_value_def by blast
qed

lemma linearInterpolation_d_0:
  assumes "is_lattice_value v0" "is_lattice_value v1"
  shows "linearInterpolation_d v0 v1 (Fin 0) = v0"
proof -
  obtain k0 k1 where k: "\<bar>k0\<bar> \<le> 2 ^ 30" "\<bar>k1\<bar> \<le> 2 ^ 30"
    and v: "v0 = Fin (of_int k0 / 2 ^ 30)" "v1 = Fin (of_int k1 / 2 ^ 30)"
    using assms unfolding is_lattice_value_def by blast
  have r: "to_double (of_int j / 2 ^ 30) = Fin (of_int j / 2 ^ 30)"
    if "j \<noteq> 0" "\<bar>j\<bar> \<le> 2 ^ 31" for j
    using that by (intro to_double_dyadic) simp_all
  have diff: "real_of_int k1 / 2 ^ 30 - real_of_int k0 / 2 ^ 30 = of_int (k1 - k0) / 2 ^ 30"
    by (simp add: field_simps)
  have "\<exists>d. sub_d v1 v0 = Fin d"
  proof (cases "k1 - k0 = 0")
    case True
    then show ?thesis unfolding v sub_d_Fin diff by simp
  next
    case False
    then have t: "to_double (of_int (k1 - k0) / 2 ^ 30) = Fin (of_int (k1 - k0) / 2 ^ 30)"
      using k by (intro r) simp_all
    have nz: "(of_int (k1 - k0) / 2 ^ 30 :: real) \<noteq> 0" using False by simp
    show ?thesis unfolding v sub_d_Fin diff t by (simp only: nz if_False) blast
  qed
  then obtain d where d: "sub_d v1 v0 = Fin d" ..
  have m: "mul_d (Fin d) (Fin 0) = zero_d (d < 0)"
    by (simp add: mul_d_def is_inf_def is_zero_def is_neg_def real_of_def Let_def)
  have a: "add_d (Fin c) (zero_d b) = (if c = 0 then Fin 0 else to_double c)" for c b
    by (simp add: add_d_def is_inf_def real_of_def zero_d_def Let_def)
  show ?thesis
  proof (cases "k0 = 0")
    case True
    then show ?thesis unfolding linearInterpolation_d_def d m unfolding v a by simp
  next
    case False
    then have "to_double (of_int k0 / 2 ^ 30) = Fin (of_int k0 / 2 ^ 30)"
      using k by (intro r) simp_all
    then show ?thesis using False unfolding linearInterpolation_d_def d m unfolding v a by simp
  qed
qed

lemma noise2d_d_0_0_0: "noise2d_d (Fin 0) (Fin 0) (Fin 0) = Fin (- (302570765 / 1073741824))"
proof -
  have "to_int32_d (add_d (add_d (mul_d (of_int_d NOISE_MAGIC_X) (floor_d (Fin 0)))
                                  (mul_d (of_int_d NOISE_MAGIC_Y) (floor_d (Fin 0))))
                           (mul_d (of_int_d NOISE_MAGIC_SEED) (Fin 0))) = 0"
    by (simp add: floor_d_def mul_d_def add_d_def of_int_d_def is_inf_def is_zero_def is_neg_def
        real_of_def zero_d_def to_int32_d_def)
  then have "noise2d_d (Fin 0) (Fin 0) (Fin 0)
               = sub_d (Fin 1) (div_d (of_int_d 1376312589) (Fin 0x40000000))"
    by (simp add: noise2d_d_def Let_def noise_mix_0)
  also have "\<dots> = Fin (of_int (2 ^ 30 - 1376312589) / 2 ^ 30)"
    by (rule lattice_value) simp_all
  finally show ?thesis by simp
qed

lemma noise2d_gradient_d_0_0_0:
  "noise2d_gradient_d (Fin 0) (Fin 0) (Fin 0) False = Fin (- (302570765 / 1073741824))"
proof -
  have fl: "floor_d (Fin 0) = Fin 0" by (simp add: floor_d_def)
  have sb: "sub_d (Fin 0) (Fin 0) = Fin 0"
    by (simp add: sub_d_def add_d_def neg_d_def is_inf_def real_of_def zero_d_def)
  have u: "linearInterpolation_d (noise2d_d (Fin 0) (Fin 0) (Fin 0))
             (noise2d_d (add_d (Fin 0) (Fin 1)) (Fin 0) (Fin 0)) (Fin 0)
           = noise2d_d (Fin 0) (Fin 0) (Fin 0)"
    by (rule linearInterpolation_d_0) (rule noise2d_d_lattice_value)+
  have v: "linearInterpolation_d (noise2d_d (Fin 0) (add_d (Fin 0) (Fin 1)) (Fin 0))
             (noise2d_d (add_d (Fin 0) (Fin 1)) (add_d (Fin 0) (Fin 1)) (Fin 0)) (Fin 0)
           = noise2d_d (Fin 0) (add_d (Fin 0) (Fin 1)) (Fin 0)"
    by (rule linearInterpolation_d_0) (rule noise2d_d_lattice_value)+
  have w: "linearInterpolation_d (noise2d_d (Fin 0) (Fin 0) (Fin 0))
             (noise2d_d (Fin 0) (add_d (Fin 0) (Fin 1)) (Fin 0)) (Fin 0)
           = noise2d_d (Fin 0) (Fin 0) (Fin 0)"
    by (rule linearInterpolation_d_0) (rule noise2d_d_lattice_value)+
  show ?thesis
    unfolding noise2d_gradient_d_def biLinearInterpolation_d_def Let_def fl sb if_False u v w
    by (rule noise2d_d_0_0_0)
qed

text \<open>
  Claim C9 (ABSVALUE non-negativity) fails for a negative offset: with the ABSVALUE flag,
  \<open>offset = -1\<close>, \<open>scale = 1\<close> and one octave, the value at the origin is
  \<open>-1 + |noise2d(0, 0, 0)| = -771171059 / 2^30\<close>, and no operation on the way rounds.
\<close>

theorem absvalue_negative_counterexample:
  "npd_flags abs_np_d AND NOISE_FLAG_ABSVALUE \<noteq> 0
   \<and> ge_zero_d (npd_scale abs_np_d) \<and> ge_zero_d (npd_persist abs_np_d)
   \<and> NoisePerlin2D_d abs_np_d (Fin 0) (Fin 0) (Fin 0) = Fin (- (771171059 / 1073741824))"
proof -
  have zero: "div_d (Fin 0) (Fin 1) = Fin 0" "add_d (Fin 0) (Fin 0) = Fin 0"
    "mul_d (Fin 0) (Fin 1) = Fin 0" "of_int_d 0 = Fin 0"
    by (simp_all add: div_d_def add_d_def mul_d_def of_int_d_def is_inf_def is_zero_def
        is_neg_def real_of_def zero_d_def)
  have r1: "to_double (302570765 / 1073741824) = Fin (302570765 / 1073741824)"
    using to_double_dyadic [of 302570765 30] by simp
  have r2: "to_double (- (771171059 / 1073741824)) = Fin (- (771171059 / 1073741824))"
    using to_double_dyadic [of "- 771171059" 30] by simp
  have "octaves2D_d abs_np_d (Fin 0) (Fin 0) (Fin 0) 0 (Fin 0) (Fin 1) (Fin 1)
          = Fin (302570765 / 1073741824)"
    apply (subst octaves2D_d.simps)
    apply (simp add: abs_np_d_def Let_def zero noise2d_gradient_d_0_0_0 NOISE_FLAG_ABSVALUE_def
        NOISE_FLAG_DEFAULTS_def NOISE_FLAG_EASED_def abs_d_def)
    apply (subst octaves2D_d.simps)
    apply (simp add: mul_d_def add_d_def is_inf_def is_zero_def is_neg_def real_of_def r1)
    done
  then have "NoisePerlin2D_d abs_np_d (Fin 0) (Fin 0) (Fin 0) = Fin (- (771171059 / 1073741824))"
    unfolding NoisePerlin2D_d_def Let_def
    by (simp add: abs_np_d_def zero)
      (simp add: mul_d_def add_d_def is_inf_def is_zero_def is_neg_def real_of_def r1 r2)
  then show ?thesis
    by (simp add: abs_np_d_def NOISE_FLAG_ABSVALUE_def ge_zero_d_def)
qed

text \<open>
  Claim C9 as amended: with the ABSVALUE flag, with \<open>offset >= 0\<close>, \<open>scale >= 0\<close>
  and \<open>persist >= 0\<close> as JavaScript compares them, and with at most \<open>2^53\<close>
  octaves, the fractal noise functions return \<open>NaN\<close> or a value \<open>v\<close> with
  \<open>v >= 0\<close>, which may be \<open>Infinity\<close>. Up to \<open>2^53\<close> octaves the loop counter of
  the source is exact; beyond, \<open>i++\<close> stops changing \<open>i\<close> and the loop of the source
  does not end.
\<close>

theorem absvalue_nonnegative:
  assumes "npd_flags np AND NOISE_FLAG_ABSVALUE \<noteq> 0"
    and "ge_zero_d (npd_offset np)" and "ge_zero_d (npd_scale np)"
    and "ge_zero_d (npd_persist np)" and "npd_octaves np \<le> 2 ^ 53"
  shows "(NoisePerlin2D_d np x y seed = NotANumber \<or> ge_zero_d (NoisePerlin2D_d np x y seed))
       \<and> (NoisePerlin3D_d np x y z seed = NotANumber
            \<or> ge_zero_d (NoisePerlin3D_d np x y z seed))"
proof -
  have one: "nan_or_ge_zero (Fin 1)" and zero: "nan_or_ge_zero (Fin 0)"
    by (simp_all add: nan_or_ge_zero_def ge_zero_d_def)
  have p: "nan_or_ge_zero (npd_persist np)" and o: "nan_or_ge_zero (npd_offset np)"
    and s: "nan_or_ge_zero (npd_scale np)"
    using assms by (simp_all add: nan_or_ge_zero_def)
  have "nan_or_ge_zero (NoisePerlin2D_d np x y seed)"
    unfolding NoisePerlin2D_d_def Let_def
    by (intro nan_or_ge_zero_add nan_or_ge_zero_mul octaves2D_d_nonneg assms(1) p o s one zero)
  moreover have "nan_or_ge_zero (NoisePerlin3D_d np x y z seed)"
    unfolding NoisePerlin3D_d_def Let_def
    by (intro nan_or_ge_zero_add nan_or_ge_zero_mul octaves3D_d_nonneg assms(1) p o s one zero)
  ultimately show ?thesis by (simp add: nan_or_ge_zero_def)
qed

theorem absvalue_nonnegative_witness:
  "npd_flags abs_test_np_d AND NOISE_FLAG_ABSVALUE \<noteq> 0
   \<and> ge_zero_d (npd_offset abs_test_np_d) \<and> ge_zero_d (npd_scale abs_test_np_d)
   \<and> ge_zero_d (npd_persist abs_test_np_d) \<and> npd_octaves abs_test_np_d \<le> 2 ^ 53
   \<and> (NoisePerlin2D_d abs_test_np_d (Fin 100) (Fin 100) (Fin 42) = NotANumber
        \<or> ge_zero_d (NoisePerlin2D_d abs_test_np_d (Fin 100) (Fin 100) (Fin 42)))
   \<and> (NoisePerlin3D_d abs_test_np_d (Fin 100) (Fin 100) (Fin 100) (Fin 42) = NotANumber
        \<or> ge_zero_d (NoisePerlin3D_d abs_test_np_d (Fin 100) (Fin 100) (Fin 100) (Fin 42)))"
proof -
  have f: "npd_flags abs_test_np_d AND NOISE_FLAG_ABSVALUE \<noteq> 0"
    by (simp add: abs_test_np_d_def NOISE_FLAG_ABSVALUE_def)
  have o: "ge_zero_d (npd_offset abs_test_np_d)" and s: "ge_zero_d (npd_scale abs_test_np_d)"
    and p: "ge_zero_d (npd_persist abs_test_np_d)" and n: "npd_octaves abs_test_np_d \<le> 2 ^ 53"
    by (simp_all add: abs_test_np_d_def ge_zero_d_def)
  show ?thesis
    using absvalue_nonnegative [OF f o s p n, of "Fin 100" "Fin 100" "Fin 42" "Fin 100"]
      f o s p n
    by simp
qed

lemma round_half_even_ge_floor: "\<lfloor>m\<rfloor> \<le> round_half_even m"
  by (simp add: round_half_even_def Let_def)

text \<open>A real of magnitude \<open>2^1024\<close> or more is beyond the largest double.\<close>

lemma to_double_overflow:
  assumes "2 ^ 1024 \<le> \<bar>x\<bar>"
  shows "to_double x = (if x < 0 then NegInf else PosInf)"
proof -
  define a where "a = \<bar>x\<bar>"
  have a: "2 ^ 1024 \<le> a" using assms by (simp add: a_def)
  then have a_pos: "0 < a" by (smt (verit) zero_less_power)
  have "binade a 0 = 1023"
  proof (rule ccontr)
    assume "binade a 0 \<noteq> 1023"
    then have lt: "binade a 0 < 1023" using binade_range [of 0 a] by simp
    then have "a < 2 * 2 powi (binade a 0)" using binade_spec [OF a_pos, of 0] by simp
    also have "\<dots> = 2 powi (binade a 0 + 1)" by (simp add: power_int_add)
    also have "\<dots> \<le> 2 powi 1023" using lt by (intro power_int_increasing) simp_all
    also have "\<dots> \<le> (2::real) ^ 1024" by simp
    finally show False using a by simp
  qed
  then have u: "ulp a = 2 ^ 971" by (simp add: ulp_def)
  have "(2::real) ^ 53 * 2 ^ 971 = 2 ^ 1024" by (simp flip: power_add)
  then have "2 ^ 53 \<le> a / 2 ^ 971" using a by (simp add: le_divide_eq)
  then have "2 ^ 53 \<le> \<lfloor>a / 2 ^ 971\<rfloor>" by (simp add: le_floor_iff)
  then have "2 ^ 53 \<le> round_half_even (a / 2 ^ 971)"
    using round_half_even_ge_floor [of "a / 2 ^ 971"] by linarith
  then have "(2::real) ^ 53 \<le> of_int (round_half_even (a / 2 ^ 971))"
    by (metis of_int_le_iff of_int_numeral of_int_power)
  then have "(2::real) ^ 53 * 2 ^ 971 \<le> of_int (round_half_even (a / 2 ^ 971)) * 2 ^ 971"
    by (intro mult_right_mono) simp_all
  then have "2 ^ 1024 \<le> of_int (round_half_even (a / ulp a)) * ulp a"
    unfolding u by (simp flip: power_add)
  then show ?thesis
    unfolding to_double_def Let_def a_def [symmetric] by simp
qed

lemma linearInterpolation_d_nan: "linearInterpolation_d v0 v1 NotANumber = NotANumber"
  by (simp add: linearInterpolation_d_def add_d_def mul_d_def)

lemma easeCurve_d_nan: "easeCurve_d NotANumber = NotANumber"
  by (simp add: easeCurve_d_def mul_d_def)

text \<open>
  An infinite coordinate has no fractional part: \<open>Infinity - Math.floor(Infinity)\<close> is
  \<open>NaN\<close>, and so is the interpolated sample.
\<close>

lemma linearInterpolation_d_nan_left: "linearInterpolation_d NotANumber v1 t = NotANumber"
  by (simp add: linearInterpolation_d_def add_d_def)

lemma noise2d_gradient_d_inf: "noise2d_gradient_d PosInf y seed eased = NotANumber"
proof -
  have xl: "sub_d PosInf (floor_d PosInf) = NotANumber"
    by (simp add: floor_d_def sub_d_def neg_d_def add_d_def is_inf_def)
  show ?thesis
    unfolding noise2d_gradient_d_def biLinearInterpolation_d_def Let_def xl
    by (simp add: easeCurve_d_nan linearInterpolation_d_nan linearInterpolation_d_nan_left)
qed

lemma octaves2D_d_nan: "octaves2D_d np x y seed i NotANumber f g = NotANumber"
proof (induction np x y seed i "NotANumber" f g rule: octaves2D_d.induct)
  case (1 np x y seed i f g)
  show ?case
  proof (cases "i < npd_octaves np")
    case True
    have n: "add_d NotANumber v = NotANumber" for v by (simp add: add_d_def)
    show ?thesis
      using True "1.hyps" [OF True refl refl, unfolded n]
      by (subst octaves2D_d.simps) (simp add: Let_def n)
  next
    case False
    then show ?thesis by (subst octaves2D_d.simps) simp
  qed
qed

text \<open>
  \<open>NaN\<close> does arise with non-zero spreads and with the hypotheses above: in
  \<open>overflow_np_d\<close> the coordinate \<open>2^1023 / 0.5\<close> overflows to \<open>Infinity\<close>.
\<close>

lemma NoisePerlin2D_d_overflow:
  "NoisePerlin2D_d overflow_np_d (Fin (2 ^ 1023)) (Fin 100) (Fin 42) = NotANumber"
proof -
  have "to_double (2 ^ 1023 / (1 / 2)) = PosInf"
    using to_double_overflow [of "2 ^ 1023 / (1 / 2)"] by simp
  then have x: "div_d (Fin (2 ^ 1023)) (Fin (1 / 2)) = PosInf"
    by (simp add: div_d_def is_inf_def is_zero_def real_of_def)
  have inf: "mul_d PosInf (Fin 1) = PosInf"
    by (simp add: mul_d_def is_inf_def is_zero_def is_neg_def inf_d_def)
  have a: "octaves2D_d overflow_np_d PosInf y seed 0 (Fin 0) (Fin 1) (Fin 1) = NotANumber"
    for y seed
    apply (subst octaves2D_d.simps)
    apply (simp add: overflow_np_d_def abs_test_np_d_def Let_def inf noise2d_gradient_d_inf
        NOISE_FLAG_ABSVALUE_def abs_d_def)
    apply (simp add: mul_d_def add_d_def octaves2D_d_nan)
    done
  have sx: "npd_spread_x overflow_np_d = Fin (1 / 2)" by (simp add: overflow_np_d_def)
  have n: "mul_d NotANumber v = NotANumber" "add_d v NotANumber = NotANumber" for v
    by (simp_all add: mul_d_def add_d_def)
  show ?thesis
    unfolding NoisePerlin2D_d_def Let_def sx x a n ..
qed

section \<open>Properties of the graph operations\<close>

lemma getNodeIdFromPortId_connections [simp]:
  "getNodeIdFromPortId (g\<lparr>connections := cs\<rparr>) p = getNodeIdFromPortId g p"
  by (simp add: getNodeIdFromPortId_def cong: option.case_cong if_cong)

lemma wouldCreateCycle_unresolved:
  "getNodeIdFromPortId g fromPort = None \<or> getNodeIdFromPortId g toPort = None
     \<Longrightarrow> \<not> wouldCreateCycle g fromPort toPort"
  by (auto simp: wouldCreateCycle_def falsy_id_def Let_def)

text \<open>
  Claim C10 (no check of port existence or direction). When neither port id resolves
  to a node of the graph, \<open>addConnection\<close> returns \<open>true\<close> and the connection list is
  the old one, without the connections that led to \<open>toPort\<close>, followed by the new
  connection.
\<close>

theorem addConnection_unresolved_ports:
  assumes "getNodeIdFromPortId g fromPort = None"
    and "getNodeIdFromPortId g toPort = None"
  shows "addConnection g fromPort toPort =
           (True, g\<lparr>connections := filter (\<lambda>c. conn_to c \<noteq> toPort) (connections g)
                                     @ [\<lparr>conn_from = fromPort, conn_to = toPort\<rparr>]\<rparr>)"
proof (cases "list_ex (\<lambda>c. conn_to c = toPort) (connections g)")
  case True
  have "\<not> wouldCreateCycle
            (g\<lparr>connections := filter (\<lambda>c. conn_to c \<noteq> toPort) (connections g)\<rparr>)
            fromPort toPort"
    by (rule wouldCreateCycle_unresolved) (simp add: assms)
  then show ?thesis using True by (simp add: addConnection_def Let_def)
next
  case False
  then have same: "filter (\<lambda>c. conn_to c \<noteq> toPort) (connections g) = connections g"
    by (simp add: list_ex_iff)
  have "\<not> wouldCreateCycle g fromPort toPort"
    by (rule wouldCreateCycle_unresolved) (simp add: assms)
  then show ?thesis using False same by (simp add: addConnection_def Let_def)
qed

text \<open>
  On the graph with the single node \<open>1\<close>, the input-style id \<open>5_in1\<close> is accepted as a
  source and the output-style id \<open>6_out\<close> as a target.
\<close>

theorem addConnection_unresolved_ports_witness:
  "getNodeIdFromPortId one_node_graph ''5_in1'' = None
   \<and> getNodeIdFromPortId one_node_graph ''6_out'' = None
   \<and> addConnection one_node_graph ''5_in1'' ''6_out''
       = (True, one_node_graph\<lparr>connections := [\<lparr>conn_from = ''5_in1'', conn_to = ''6_out''\<rparr>]\<rparr>)"
proof -
  have conns: "connections one_node_graph = []"
    by (simp add: one_node_graph_def addNode_def empty_graph_def Let_def)
  have ex: "list_ex (\<lambda>n. node_id n = k) (nodes one_node_graph) = (k = 1)" for k
    by (auto simp: one_node_graph_def addNode_def empty_graph_def Let_def)
  have a: "getNodeIdFromPortId one_node_graph ''5_in1'' = None"
    by (simp add: getNodeIdFromPortId_def ex parseInt_def is_space_def is_digit_def
        digits_value_def)
  have b: "getNodeIdFromPortId one_node_graph ''6_out'' = None"
    by (simp add: getNodeIdFromPortId_def ex parseInt_def is_space_def is_digit_def
        digits_value_def)
  show ?thesis
    using addConnection_unresolved_ports [OF a b] a b by (simp add: conns)
qed

lemma string_of_nat_digit: "n < 10 \<Longrightarrow> string_of_nat n = [digit_char n]"
  by (subst string_of_nat.simps) simp

lemma string_of_nat_1: "string_of_nat 1 = ''1''"
  by (simp add: string_of_nat_digit digit_char_def)
lemma string_of_nat_Suc_0: "string_of_nat (Suc 0) = ''1''"
  by (simp add: string_of_nat_digit digit_char_def)
lemma string_of_nat_2: "string_of_nat 2 = ''2''"
  by (simp add: string_of_nat_digit digit_char_def)
lemma string_of_nat_3: "string_of_nat 3 = ''3''"
  by (simp add: string_of_nat_digit digit_char_def)
lemma string_of_nat_12: "string_of_nat 12 = ''12''"
  by (subst string_of_nat.simps) (simp add: string_of_nat_digit digit_char_def)
lemma string_of_nat_13: "string_of_nat 13 = ''13''"
  by (subst string_of_nat.simps) (simp add: string_of_nat_digit digit_char_def)

lemmas string_of_nat_eval =
  string_of_nat_1 string_of_nat_Suc_0 string_of_nat_2 string_of_nat_3 string_of_nat_12 string_of_nat_13

lemma new_node_created: "created_by_addNode (new_node i ty)"
  by (simp add: new_node_def addNode_def created_by_addNode_def Let_def)

lemma new_node_simps [simp]:
  "node_id (new_node i ty) = i"
  "node_type (new_node i ty) = ty"
  "node_inputs (new_node i ty) = default_inputs ty i"
  "node_outputs (new_node i ty) = default_outputs ty i"
  "node_params (new_node i ty) = default_params ty 0"
  by (simp_all add: new_node_def addNode_def Let_def)

lemmas parse_eval = getNodeIdFromPortId_def parseInt_def is_space_def is_digit_def
  digits_value_def

text \<open>
  The graph operations keep the port layout of \<open>addNode\<close>: it holds in every graph
  built with them from the empty graph.
\<close>

lemma addNode_created: "created_by_addNode (fst (addNode g ty x y rnd))"
  by (simp add: addNode_def created_by_addNode_def Let_def)

lemma addNode_keeps_layout:
  "list_all created_by_addNode (nodes g)
     \<Longrightarrow> list_all created_by_addNode (nodes (snd (addNode g ty x y rnd)))"
  using addNode_created [of g ty x y rnd]
  by (simp add: addNode_def Let_def)

lemma removeNode_keeps_layout:
  "list_all created_by_addNode (nodes g)
     \<Longrightarrow> list_all created_by_addNode (nodes (snd (removeNode g k)))"
  by (auto simp: removeNode_def Let_def list_all_iff split: option.splits)

lemma addConnection_keeps_nodes: "nodes (snd (addConnection g a b)) = nodes g"
  by (simp add: addConnection_def Let_def)

lemma digit_char_value: "d < 10 \<Longrightarrow> of_char (digit_char d) - 48 = d"
proof -
  assume "d < 10"
  then have "d \<in> {0, 1, 2, 3, 4, 5, 6, 7, 8, 9}" by auto
  then show ?thesis by (auto simp: digit_char_def)
qed

lemma digit_char_not_underscore: "d < 10 \<Longrightarrow> digit_char d \<noteq> CHR ''_''"
proof -
  assume "d < 10"
  then have "d \<in> {0, 1, 2, 3, 4, 5, 6, 7, 8, 9}" by auto
  then show ?thesis by (auto simp: digit_char_def)
qed

lemma digits_value_snoc: "digits_value (ds @ [c]) = 10 * digits_value ds + (of_char c - 48)"
  by (simp add: digits_value_def)

lemma digits_value_string_of_nat: "digits_value (string_of_nat n) = n"
proof (induction n rule: string_of_nat.induct)
  case (1 n)
  show ?case
  proof (cases "n < 10")
    case True
    then show ?thesis
      by (subst string_of_nat.simps) (simp add: digits_value_def digit_char_value)
  next
    case False
    then have "digits_value (string_of_nat (n div 10)) = n div 10" using 1 by simp
    then show ?thesis using False
      by (subst string_of_nat.simps) (simp add: digits_value_snoc digit_char_value)
  qed
qed

lemma string_of_nat_inj: "string_of_nat a = string_of_nat b \<Longrightarrow> a = b"
  by (metis digits_value_string_of_nat)

lemma string_of_nat_no_underscore: "CHR ''_'' \<notin> set (string_of_nat n)"
proof (induction n rule: string_of_nat.induct)
  case (1 n)
  show ?case
  proof (cases "n < 10")
    case True
    then show ?thesis
      using digit_char_not_underscore [of n] by (subst string_of_nat.simps) auto
  next
    case False
    then have "CHR ''_'' \<notin> set (string_of_nat (n div 10))" using 1 by simp
    then show ?thesis using False digit_char_not_underscore [of "n mod 10"]
      by (subst string_of_nat.simps) auto
  qed
qed

lemma prefix_separator:
  assumes "u \<notin> set a" and "u \<notin> set b" and "prefix (a @ [u]) (b @ u # s)"
  shows "a = b"
proof -
  from assms(3) obtain r where eq: "b @ u # s = a @ u # r"
    by (auto simp: prefix_def)
  have "takeWhile (\<lambda>c. c \<noteq> u) (a @ u # r) = a"
    using assms(1) by (auto simp: takeWhile_tail)
  moreover have "takeWhile (\<lambda>c. c \<noteq> u) (b @ u # s) = b"
    using assms(2) by (auto simp: takeWhile_tail)
  ultimately show ?thesis using eq by simp
qed

lemma prefix_node_id:
  "prefix (string_of_nat k @ ''_'') (string_of_nat j @ ''_'' @ s) \<longleftrightarrow> k = j"
proof
  assume "prefix (string_of_nat k @ ''_'') (string_of_nat j @ ''_'' @ s)"
  then have "string_of_nat k = string_of_nat j"
    using prefix_separator [of "CHR ''_''" "string_of_nat k" "string_of_nat j" s]
    by (simp add: string_of_nat_no_underscore)
  then show "k = j" by (rule string_of_nat_inj)
next
  assume "k = j"
  then show "prefix (string_of_nat k @ ''_'') (string_of_nat j @ ''_'' @ s)" by simp
qed

lemma port_id_mk_port: "port_id (mk_port i sfx nm t) = string_of_nat i @ CHR ''_'' # sfx"
  by (simp add: mk_port_def)

lemma default_inputs_ids:
  "list_all (\<lambda>p. \<exists>s. port_id p = string_of_nat i @ ''_'' @ s) (default_inputs ty i)"
  unfolding default_inputs_def by (simp add: port_id_mk_port)

lemma default_outputs_ids:
  "list_all (\<lambda>p. \<exists>s. port_id p = string_of_nat i @ ''_'' @ s) (default_outputs ty i)"
  unfolding default_outputs_def by (simp add: port_id_mk_port)

lemma default_port_ids:
  "p \<in> set (default_inputs ty i @ default_outputs ty i)
     \<Longrightarrow> \<exists>s. port_id p = string_of_nat i @ ''_'' @ s"
  using default_inputs_ids [of i ty] default_outputs_ids [of i ty]
  by (auto simp: list_all_iff)

lemma owns_prefix:
  assumes "created_by_addNode m" and "owns m p"
  shows "prefix (string_of_nat k @ ''_'') p \<longleftrightarrow> node_id m = k"
proof -
  from assms obtain q where "q \<in> set (default_inputs (node_type m) (node_id m)
      @ default_outputs (node_type m) (node_id m))" and "port_id q = p"
    by (auto simp: owns_def created_by_addNode_def list_ex_iff)
  then obtain s where "p = string_of_nat (node_id m) @ ''_'' @ s"
    using default_port_ids by blast
  then show ?thesis using prefix_node_id [of k "node_id m" s] by auto
qed

text \<open>
  Claim C7 (removal cascade). In a graph whose nodes were created by \<open>addNode\<close>,
  removing a node \<open>n\<close> other than the terrain output removes the nodes with its id
  from the node list, keeps the remaining connections in their order, removes every
  connection that touches a port of \<open>n\<close>, and keeps every connection that runs between
  ports of nodes with another id. The prefix test \<open>startsWith(nodeId + '_')\<close> cannot
  confuse two ids, because the decimal rendering of an id has no underscore.
\<close>

theorem removeNode_cascade:
  assumes wf: "list_all created_by_addNode (nodes g)"
    and found: "find (\<lambda>m. node_id m = k) (nodes g) = Some n"
    and notout: "node_type n \<noteq> ''terrain-output''"
  shows "nodes (snd (removeNode g k)) = filter (\<lambda>m. node_id m \<noteq> k) (nodes g)
    \<and> n \<notin> set (nodes (snd (removeNode g k)))
    \<and> subseq (connections (snd (removeNode g k))) (connections g)
    \<and> (\<forall>c \<in> set (connections g).
          (touches c n \<longrightarrow> c \<notin> set (connections (snd (removeNode g k))))
          \<and> ((\<exists>m \<in> set (nodes g). \<exists>m' \<in> set (nodes g).
                 node_id m \<noteq> k \<and> node_id m' \<noteq> k \<and> owns m (conn_from c) \<and> owns m' (conn_to c))
               \<longrightarrow> c \<in> set (connections (snd (removeNode g k)))))"
proof -
  let ?pre = "string_of_nat k @ ''_''"
  have nk: "node_id n = k" and nin: "n \<in> set (nodes g)"
    using found by (auto simp: find_Some_iff)
  have wfn: "created_by_addNode m" if "m \<in> set (nodes g)" for m
    using wf that by (simp add: list_all_iff)
  have res: "snd (removeNode g k) =
      g\<lparr>connections := filter (\<lambda>c. \<not> prefix ?pre (conn_from c) \<and> \<not> prefix ?pre (conn_to c))
                         (connections g),
        nodes := filter (\<lambda>m. node_id m \<noteq> k) (nodes g)\<rparr>"
    using found notout by (simp add: removeNode_def Let_def)
  have "touches c n \<longrightarrow> prefix ?pre (conn_from c) \<or> prefix ?pre (conn_to c)" for c
    using owns_prefix [OF wfn [OF nin], of _ k] nk by (auto simp: touches_def)
  moreover have "\<not> prefix ?pre (conn_from c) \<and> \<not> prefix ?pre (conn_to c)"
    if "m \<in> set (nodes g)" "m' \<in> set (nodes g)" "node_id m \<noteq> k" "node_id m' \<noteq> k"
      "owns m (conn_from c)" "owns m' (conn_to c)" for c m m'
    using that owns_prefix [OF wfn, of m _ k] owns_prefix [OF wfn, of m' _ k] by auto
  ultimately show ?thesis
    unfolding res using nk by (auto simp: subseq_filter_left)
qed

text \<open>
  In \<open>cascade_graph\<close>, removing node \<open>1\<close> removes the connection from \<open>1_out\<close> and
  keeps the one from \<open>12_out\<close>.
\<close>

theorem removeNode_cascade_witness:
  "list_all created_by_addNode (nodes cascade_graph)
   \<and> find (\<lambda>m. node_id m = 1) (nodes cascade_graph) = Some (new_node 1 ''terrain-type'')
   \<and> node_type (new_node 1 ''terrain-type'') \<noteq> ''terrain-output''
   \<and> touches \<lparr>conn_from = ''1_out'', conn_to = ''13_useFalse''\<rparr> (new_node 1 ''terrain-type'')
   \<and> \<lparr>conn_from = ''1_out'', conn_to = ''13_useFalse''\<rparr>
        \<notin> set (connections (snd (removeNode cascade_graph 1)))
   \<and> owns (new_node 12 ''terrain-type'') ''12_out''
   \<and> owns (new_node 13 ''compare'') ''13_useTrue''
   \<and> \<lparr>conn_from = ''12_out'', conn_to = ''13_useTrue''\<rparr>
        \<in> set (connections (snd (removeNode cascade_graph 1)))
   \<and> map node_id (nodes (snd (removeNode cascade_graph 1))) = [12, 13]"
proof -
  have wf: "list_all created_by_addNode (nodes cascade_graph)"
    by (simp add: cascade_graph_def new_node_created)
  have found: "find (\<lambda>m. node_id m = 1) (nodes cascade_graph) = Some (new_node 1 ''terrain-type'')"
    by (simp add: cascade_graph_def)
  have notout: "node_type (new_node 1 ''terrain-type'') \<noteq> ''terrain-output''" by simp
  have t1: "touches \<lparr>conn_from = ''1_out'', conn_to = ''13_useFalse''\<rparr> (new_node 1 ''terrain-type'')"
    by (simp add: touches_def owns_def default_outputs_def default_inputs_def mk_port_def
        string_of_nat_eval)
  have o12: "owns (new_node 12 ''terrain-type'') ''12_out''"
    by (simp add: owns_def default_outputs_def default_inputs_def mk_port_def string_of_nat_eval)
  have o13: "owns (new_node 13 ''compare'') ''13_useTrue''"
    by (simp add: owns_def default_outputs_def default_inputs_def mk_port_def string_of_nat_eval)
  have conns: "connections cascade_graph = [\<lparr>conn_from = ''12_out'', conn_to = ''13_useTrue''\<rparr>,
                     \<lparr>conn_from = ''1_out'', conn_to = ''13_useFalse''\<rparr>]"
    and nds: "nodes cascade_graph = [new_node 1 ''terrain-type'', new_node 12 ''terrain-type'', new_node 13 ''compare'']"
    by (simp_all add: cascade_graph_def)
  note inst = removeNode_cascade [OF wf found notout]
  have nodes': "map node_id (nodes (snd (removeNode cascade_graph 1))) = [12, 13]"
    using inst by (simp add: nds)
  have gone: "\<lparr>conn_from = ''1_out'', conn_to = ''13_useFalse''\<rparr>
        \<notin> set (connections (snd (removeNode cascade_graph 1)))"
    using inst t1 by (simp add: conns)
  have "\<exists>m \<in> set (nodes cascade_graph). \<exists>m' \<in> set (nodes cascade_graph).
           node_id m \<noteq> 1 \<and> node_id m' \<noteq> 1 \<and> owns m ''12_out'' \<and> owns m' ''13_useTrue''"
    using o12 o13 by (simp add: nds)
  then have kept: "\<lparr>conn_from = ''12_out'', conn_to = ''13_useTrue''\<rparr>
        \<in> set (connections (snd (removeNode cascade_graph 1)))"
    using inst by (simp add: conns)
  show ?thesis using wf found notout t1 gone o12 o13 kept nodes' by simp
qed

text \<open>
  Claim C2 (a rejected connection leaves the list unchanged). In \<open>linked_graph\<close> the
  input \<open>2_in\<close> is fed by \<open>1_out\<close>. Connecting \<open>2_out\<close> to \<open>2_in\<close> is a self-loop:
  \<open>addConnection\<close> returns \<open>false\<close>, but it has already removed the connection that
  led to \<open>2_in\<close>, and the list is empty afterwards.
\<close>

theorem addConnection_rejected_drops_connection:
  "connections linked_graph = [\<lparr>conn_from = ''1_out'', conn_to = ''2_in''\<rparr>]
   \<and> addConnection linked_graph ''2_out'' ''2_in'' = (False, linked_graph\<lparr>connections := []\<rparr>)"
proof -
  have id2: "getNodeIdFromPortId (linked_graph\<lparr>connections := []\<rparr>) p = getNodeIdFromPortId linked_graph p" for p
    by simp
  have a: "getNodeIdFromPortId linked_graph ''2_out'' = Some 2"
    by (simp add: parse_eval linked_graph_def)
  have b: "getNodeIdFromPortId linked_graph ''2_in'' = Some 2"
    by (simp add: parse_eval linked_graph_def)
  have cyc: "wouldCreateCycle (linked_graph\<lparr>connections := []\<rparr>) ''2_out'' ''2_in''"
    by (simp add: wouldCreateCycle_def a b falsy_id_def)
  have conns: "connections linked_graph = [\<lparr>conn_from = ''1_out'', conn_to = ''2_in''\<rparr>]"
    by (simp add: linked_graph_def)
  show ?thesis
    using cyc by (simp add: addConnection_def conns Let_def)
qed

section \<open>Properties of the evaluator\<close>

lemma arity_within_layout:
  "case input_arity ty of None \<Rightarrow> True | Some k \<Rightarrow> k \<le> length (default_inputs ty i)"
  by (simp add: input_arity_def default_inputs_def)

lemma compare_layout: "length (default_inputs ''compare'' i) = 4"
  by (simp add: default_inputs_def)

lemma find_output_mem: "find_output ns p = Some (n, out) \<Longrightarrow> n \<in> set ns"
  by (induction ns) (auto split: option.splits)

lemma evaluator_no_exception:
  "list_all created_by_addNode (nodes g) \<longrightarrow>
     (\<exists>v w'. evaluatePort g p x y z w d = Inr (v, w'))"
  "list_all created_by_addNode (nodes g) \<longrightarrow> n \<in> set (nodes g) \<longrightarrow>
     (\<exists>v w'. evaluateNode g n x y z so w d = Inr (v, w'))"
  "list_all created_by_addNode (nodes g) \<longrightarrow> n \<in> set (nodes g) \<longrightarrow>
     (\<forall>i \<in> set is. i < length (node_inputs n)) \<longrightarrow>
     (\<exists>vs w'. evaluateInputs g n is x y z w d = Inr (vs, w'))"
proof (induction g p x y z w d and g n x y z so w d and g n "is" x y z w d
    rule: evaluatePort_evaluateNode_evaluateInputs.induct)
  case (1 g portId x y z w depth)
  show ?case
  proof
    assume wf: "list_all created_by_addNode (nodes g)"
    show "\<exists>v w'. evaluatePort g portId x y z w depth = Inr (v, w')"
    proof (cases "depth > MAX_RECURSION_DEPTH \<or> portId \<in> fst w")
      case True
      then show ?thesis by (subst evaluatePort.simps) auto
    next
      case False
      note guard = this
      show ?thesis
      proof (cases "find_output (nodes g) portId")
        case (Some a)
        obtain n out where a: "a = (n, out)" by (cases a)
        have "n \<in> set (nodes g)" using Some a find_output_mem by fastforce
        then have "\<exists>v w'. evaluateNode g n x y z (Some out)
                     (fst (insert portId (fst w), snd w) - {portId}, snd (insert portId (fst w), snd w))
                     (depth + 1) = Inr (v, w')"
          using "1.IH"(2) [OF _ _ refl Some a [symmetric]] guard wf by auto
        then show ?thesis using guard Some a
          by (subst evaluatePort.simps) (auto simp: Let_def)
      next
        case None
        show ?thesis
        proof (cases "find (\<lambda>c. conn_to c = portId) (connections g)")
          case (Some conn)
          have "\<exists>v w'. evaluatePort g (conn_from conn) x y z (insert portId (fst w), snd w)
                     (depth + 1) = Inr (v, w')"
            using "1.IH"(1) [OF _ _ refl None Some] guard wf by auto
          then show ?thesis using guard None Some
            by (subst evaluatePort.simps) (auto simp: Let_def)
        next
          case None2: None
          show ?thesis using guard None None2
            by (subst evaluatePort.simps) (auto simp: Let_def split: option.splits)
        qed
      qed
    qed
  qed
next
  case (2 g n x y z specificOutput w depth)
  show ?case
  proof (intro impI)
    assume wf: "list_all created_by_addNode (nodes g)" and n: "n \<in> set (nodes g)"
    have layout: "node_inputs n = default_inputs (node_type n) (node_id n)"
      using wf n by (simp add: list_all_iff created_by_addNode_def)
    show "\<exists>v w'. evaluateNode g n x y z specificOutput w depth = Inr (v, w')"
    proof (cases "input_arity (node_type n)")
      case None
      then show ?thesis by (subst evaluateNode.simps) simp
    next
      case (Some k)
      have "k \<le> length (node_inputs n)"
        using arity_within_layout [of "node_type n" "node_id n"] Some layout by simp
      then have "\<forall>i\<in>set [0..<k]. i < length (node_inputs n)" by simp
      then obtain vs w1 where ev: "evaluateInputs g n [0..<k] x y z w depth = Inr (vs, w1)"
        using "2.IH"(1) [OF Some] wf n by blast
      show ?thesis
      proof (cases "node_type n = ''compare''")
        case False
        then show ?thesis using Some ev by (subst evaluateNode.simps) simp
      next
        case True
        then have nc: "\<not> node_type n \<noteq> ''compare''" by simp
        have len: "length (node_inputs n) = 4"
          using layout True compare_layout by simp
        then have len2: "2 < length (node_inputs n)" and len3: "3 < length (node_inputs n)"
          by simp_all
        let ?op = "case node_params n of CompareParams operator t f \<Rightarrow> operator | _ \<Rightarrow> []"
        let ?res = "compare_result ?op (vs ! 0) (vs ! 1)"
        show ?thesis
        proof (cases ?res)
          case res: True
          show ?thesis
          proof (cases "find (\<lambda>c. conn_to c = port_id (node_inputs n ! 2)) (connections g)")
            case None
            then show ?thesis using Some ev True len2 res
              by (subst evaluateNode.simps) (simp add: Let_def)
          next
            case found: (Some c)
            have "\<exists>v w'. evaluatePort g (conn_from c) x y z w1 depth = Inr (v, w')"
              using "2.IH"(2) [OF Some ev refl nc refl refl refl refl len2 res found] wf
              by simp
            then show ?thesis using Some ev True len2 res found
              by (subst evaluateNode.simps) (simp add: Let_def)
          qed
        next
          case res: False
          show ?thesis
          proof (cases "find (\<lambda>c. conn_to c = port_id (node_inputs n ! 3)) (connections g)")
            case None
            then show ?thesis using Some ev True len2 len3 res
              by (subst evaluateNode.simps) (simp add: Let_def)
          next
            case found: (Some c)
            have "\<exists>v w'. evaluatePort g (conn_from c) x y z w1 depth = Inr (v, w')"
              using "2.IH"(3) [OF Some ev refl nc refl refl refl refl len2 res len3 found] wf
              by simp
            then show ?thesis using Some ev True len2 len3 res found
              by (subst evaluateNode.simps) (simp add: Let_def)
          qed
        qed
      qed
    qed
  qed
next
  case (3 g n x y z w depth)
  show ?case by simp
next
  case (4 g n i "is" x y z w depth)
  show ?case
  proof (intro impI)
    assume wf: "list_all created_by_addNode (nodes g)" and n: "n \<in> set (nodes g)"
      and bound: "\<forall>j\<in>set (i # is). j < length (node_inputs n)"
    then have i: "i < length (node_inputs n)" by simp
    obtain v w1 where
      ev: "evaluatePort g (port_id (node_inputs n ! i)) x y z w depth = Inr (v, w1)"
      using "4.IH"(1) [OF i] wf by blast
    obtain vs w2 where "evaluateInputs g n is x y z w1 depth = Inr (vs, w2)"
      using "4.IH"(2) [OF i ev refl] wf n bound by auto
    then show "\<exists>vs w'. evaluateInputs g n (i # is) x y z w depth = Inr (vs, w')"
      using i ev by simp
  qed
qed

lemma evaluatePort_depth_guard:
  "MAX_RECURSION_DEPTH < depth \<Longrightarrow>
     evaluatePort g portId x y z w depth = Inr (Num 0, (fst w, snd w @ [depth_message portId]))"
  by (subst evaluatePort.simps) simp

lemmas layout_eval = default_inputs_def default_outputs_def default_params_def mk_port_def
  string_of_nat_eval

lemma upt_eval: "[0..<1] = [0]" "[0..<2] = [0, 1]" "[0..<3] = [0, 1, 2]"
  by (simp_all add: upt_rec)

lemmas evaluator_eval = evaluateTerrain_def getOutputNode_def layout_eval
  evaluatePort.simps evaluateNode.simps MAX_RECURSION_DEPTH_def input_arity_def
  evaluateLeaf_def upt_eval findPort_def compare_result_def js_less_def

text \<open>
  Claim C1 (\<open>evaluateTerrain\<close> is total) fails in its last clause, that the result is
  always a terrain sample or \<open>null\<close>: in \<open>compare_graph\<close> both numeric inputs of the
  compare node default to \<open>0\<close>, \<open>0 < 0\<close> is false, no terrain is connected to
  \<open>If False\<close>, and the result is the numeric fallback \<open>useFalse = 0\<close>.
\<close>

theorem evaluateTerrain_number_counterexample:
  "evaluateTerrain compare_graph 0 0 0 = Some (Num 0)"
  by (simp add: compare_graph_def evaluator_eval)

text \<open>
  Claim C1 as amended, for a graph whose noise loops end (\<open>loops_bounded\<close>).
  \<open>evaluateTerrain\<close> returns \<open>null\<close> when there is no terrain
  output node, when that node has no input, and when its first input has no incoming
  connection. Otherwise it returns the value of \<open>evaluatePort\<close> on that input, or
  \<open>null\<close> when the walk throws; in a graph whose nodes were created by \<open>addNode\<close>
  the walk does not throw. The value is whatever \<open>evaluatePort\<close> yields, and nothing
  makes it a terrain sample: it is a number in \<open>compare_graph\<close> and a string in
  \<open>text_graph\<close>. That the walk ends is the termination proof of \<open>evaluatePort\<close>,
  whose measure is the recursion depth guard.
\<close>

theorem evaluateTerrain_total:
  assumes "loops_bounded g"
  shows "(getOutputNode g = None \<longrightarrow> evaluateTerrain g x y z = None)
   \<and> (\<forall>out. getOutputNode g = Some out \<longrightarrow>
        (node_inputs out = []
         \<or> \<not> list_ex (\<lambda>c. conn_to c = port_id (hd (node_inputs out))) (connections g)
         \<longrightarrow> evaluateTerrain g x y z = None)
        \<and> (node_inputs out \<noteq> []
           \<and> list_ex (\<lambda>c. conn_to c = port_id (hd (node_inputs out))) (connections g)
           \<longrightarrow> evaluateTerrain g x y z =
                 (case evaluatePort g (port_id (hd (node_inputs out))) x y z ({}, []) 0 of
                    Inl e \<Rightarrow> None
                  | Inr (v, w) \<Rightarrow> Some v)
               \<and> (list_all created_by_addNode (nodes g) \<longrightarrow>
                    (\<exists>v w. evaluatePort g (port_id (hd (node_inputs out))) x y z ({}, []) 0
                              = Inr (v, w)
                           \<and> evaluateTerrain g x y z = Some v))))"
proof -
  have conn: "find P cs = None \<longleftrightarrow> \<not> list_ex P cs" for P and cs :: "connection list"
    by (auto simp: find_None_iff list_ex_iff)
  have a: "getOutputNode g = None \<longrightarrow> evaluateTerrain g x y z = None"
    by (simp add: evaluateTerrain_def)
  have b: "evaluateTerrain g x y z = None"
    if "getOutputNode g = Some out"
      "node_inputs out = []
         \<or> \<not> list_ex (\<lambda>c. conn_to c = port_id (hd (node_inputs out))) (connections g)"
    for out
    using that conn [of "\<lambda>c. conn_to c = port_id (hd (node_inputs out))" "connections g"]
    by (auto simp: evaluateTerrain_def split: list.splits option.splits)
  have c: "evaluateTerrain g x y z =
             (case evaluatePort g (port_id (hd (node_inputs out))) x y z ({}, []) 0 of
                Inl e \<Rightarrow> None
              | Inr (v, w) \<Rightarrow> Some v)"
    if "getOutputNode g = Some out" "node_inputs out \<noteq> []"
      "list_ex (\<lambda>c. conn_to c = port_id (hd (node_inputs out))) (connections g)"
    for out
    using that conn [of "\<lambda>c. conn_to c = port_id (hd (node_inputs out))" "connections g"]
    by (auto simp: evaluateTerrain_def split: list.splits option.splits)
  have d: "\<exists>v w. evaluatePort g (port_id (hd (node_inputs out))) x y z ({}, []) 0 = Inr (v, w)
                 \<and> evaluateTerrain g x y z = Some v"
    if out: "getOutputNode g = Some out" and ne: "node_inputs out \<noteq> []"
      and ex: "list_ex (\<lambda>c. conn_to c = port_id (hd (node_inputs out))) (connections g)"
      and wf: "list_all created_by_addNode (nodes g)"
    for out
  proof -
    obtain v w where
      "evaluatePort g (port_id (hd (node_inputs out))) x y z ({}, []) 0 = Inr (v, w)"
      using evaluator_no_exception(1) wf by blast
    then show ?thesis using c [OF out ne ex] by simp
  qed
  show ?thesis using a b c d by blast
qed

text \<open>
  The three cases on the empty graph, on \<open>output_only_graph\<close> and on \<open>stone_graph\<close>,
  where the walk returns the stone descriptor.
\<close>

theorem evaluateTerrain_total_witness:
  "loops_bounded empty_graph \<and> loops_bounded output_only_graph \<and> loops_bounded stone_graph
   \<and> getOutputNode empty_graph = None
   \<and> evaluateTerrain empty_graph 0 0 0 = None
   \<and> getOutputNode output_only_graph = Some (new_node 1 ''terrain-output'')
   \<and> \<not> list_ex (\<lambda>c. conn_to c = port_id (hd (node_inputs (new_node 1 ''terrain-output''))))
          (connections output_only_graph)
   \<and> evaluateTerrain output_only_graph 0 0 0 = None
   \<and> getOutputNode stone_graph = Some (new_node 1 ''terrain-output'')
   \<and> node_inputs (new_node 1 ''terrain-output'') \<noteq> []
   \<and> list_ex (\<lambda>c. conn_to c = port_id (hd (node_inputs (new_node 1 ''terrain-output''))))
        (connections stone_graph)
   \<and> list_all created_by_addNode (nodes stone_graph)
   \<and> evaluatePort stone_graph ''1_in'' 0 0 0 ({}, []) 0 = Inr (stone, ({''1_in''}, []))
   \<and> evaluateTerrain stone_graph 0 0 0 = Some stone"
proof -
  have e1: "getOutputNode empty_graph = None"
    by (simp add: getOutputNode_def empty_graph_def)
  have o1: "getOutputNode output_only_graph = Some (new_node 1 ''terrain-output'')"
    by (simp add: getOutputNode_def output_only_graph_def)
  have o2: "\<not> list_ex (\<lambda>c. conn_to c = port_id (hd (node_inputs (new_node 1 ''terrain-output''))))
          (connections output_only_graph)"
    by (simp add: output_only_graph_def)
  have s1: "getOutputNode stone_graph = Some (new_node 1 ''terrain-output'')"
    by (simp add: getOutputNode_def stone_graph_def)
  have s2: "node_inputs (new_node 1 ''terrain-output'') \<noteq> []"
    by (simp add: layout_eval)
  have s3: "list_ex (\<lambda>c. conn_to c = port_id (hd (node_inputs (new_node 1 ''terrain-output''))))
        (connections stone_graph)"
    by (simp add: stone_graph_def layout_eval)
  have s4: "list_all created_by_addNode (nodes stone_graph)"
    by (simp add: stone_graph_def new_node_created)
  have s5: "evaluatePort stone_graph ''1_in'' 0 0 0 ({}, []) 0 = Inr (stone, ({''1_in''}, []))"
    by (simp add: stone_graph_def stone_def evaluator_eval)
  have hd_in: "port_id (hd (node_inputs (new_node 1 ''terrain-output''))) = ''1_in''"
    by (simp add: layout_eval)
  have lb: "loops_bounded empty_graph" "loops_bounded output_only_graph"
    "loops_bounded stone_graph"
    by (simp_all add: loops_bounded_def loops_end_def empty_graph_def output_only_graph_def
        stone_graph_def new_node_def addNode_def default_params_def Let_def)
  note total = evaluateTerrain_total [OF lb(1), of 0 0 0]
    evaluateTerrain_total [OF lb(2), of 0 0 0]
    evaluateTerrain_total [OF lb(3), of 0 0 0]
  have r1: "evaluateTerrain empty_graph 0 0 0 = None"
    using total(1) e1 by blast
  have r2: "evaluateTerrain output_only_graph 0 0 0 = None"
    using total(2) o1 o2 by blast
  have "evaluateTerrain stone_graph 0 0 0 =
          (case evaluatePort stone_graph (port_id (hd (node_inputs (new_node 1 ''terrain-output''))))
                  0 0 0 ({}, []) 0 of
             Inl e \<Rightarrow> None
           | Inr (v, w) \<Rightarrow> Some v)"
    using total(3) s1 s2 s3 by blast
  then have r3: "evaluateTerrain stone_graph 0 0 0 = Some stone"
    unfolding hd_in s5 by simp
  show ?thesis using lb e1 r1 o1 o2 r2 s1 s2 s3 s4 s5 r3 by blast
qed

text \<open>
  In \<open>text_graph\<close> the add node computes \<open>a + b\<close> with the stone descriptor for
  \<open>a\<close> and the default \<open>0\<close> for \<open>b\<close>, which JavaScript concatenates to the string
  \<open>[object Object]0\<close>.
\<close>

lemma evaluateTerrain_string_example:
  "list_all created_by_addNode (nodes text_graph)
   \<and> evaluateTerrain text_graph 0 0 0 = Some Text"
  by (simp add: text_graph_def evaluator_eval new_node_created js_plus_def combine_def
      evaluateInputs.simps of_option_def)

text \<open>
  Claim C5 (typed default at the recursion guard). Beyond the depth guard
  \<open>evaluatePort\<close> logs the condition and returns the number \<open>0\<close> for every port
  (\<open>evaluatePort_depth_guard\<close>), also for the terrain-typed output \<open>2_out\<close> of
  \<open>stone_graph\<close>, where the claim asks for the air descriptor that a disconnected
  terrain input gets at the end of the same function.
\<close>

theorem depth_guard_untyped:
  "map_option port_type (findPort stone_graph ''2_out'') = Some ''terrain''
   \<and> evaluatePort stone_graph ''2_out'' 0 0 0 ({}, []) 101
       = Inr (Num 0, ({}, [depth_message ''2_out'']))"
  by (simp add: evaluatePort_depth_guard MAX_RECURSION_DEPTH_def findPort_def stone_graph_def
      layout_eval)

section \<open>Properties of the validation\<close>

lemma findConnectedInputs_Cons:
  "findConnectedInputs g (p # rest) U =
     (case input_source g p of
        None \<Rightarrow> findConnectedInputs g rest U
      | Some b \<Rightarrow> findConnectedInputs g rest (findConnectedNodes g b U))"
  by (simp add: input_source_def split: option.splits)

lemma findConnected_closed:
  "U \<subseteq> findConnectedNodes g k U \<and> k \<in> findConnectedNodes g k U
     \<and> (\<forall>a \<in> findConnectedNodes g k U - U. feeds g `` {a} \<subseteq> findConnectedNodes g k U)"
  "U \<subseteq> findConnectedInputs g ps U
     \<and> (\<forall>p \<in> set ps. \<forall>b. input_source g p = Some b \<longrightarrow> b \<in> findConnectedInputs g ps U)
     \<and> (\<forall>a \<in> findConnectedInputs g ps U - U. feeds g `` {a} \<subseteq> findConnectedInputs g ps U)"
proof (induction g k U and g ps U rule: findConnectedNodes_findConnectedInputs.induct)
  case (1 g nodeId usedNodes)
  show ?case
  proof (cases "nodeId \<in> usedNodes")
    case True
    then have "findConnectedNodes g nodeId usedNodes = usedNodes"
      by (subst findConnectedNodes.simps) simp
    then show ?thesis using True by simp
  next
    case False
    show ?thesis
    proof (cases "find (\<lambda>n. node_id n = nodeId) (nodes g)")
      case None
      then have res: "findConnectedNodes g nodeId usedNodes = insert nodeId usedNodes"
        using False by (subst findConnectedNodes.simps) simp
      have "feeds g `` {nodeId} = {}" using None by (auto simp: feeds_def)
      then show ?thesis unfolding res by auto
    next
      case (Some n)
      let ?S = "findConnectedInputs g (node_inputs n) (insert nodeId usedNodes)"
      have res: "findConnectedNodes g nodeId usedNodes = ?S"
        using False Some by (subst findConnectedNodes.simps) simp
      note ih = "1.IH" [OF False refl Some]
      have "feeds g `` {nodeId} \<subseteq> ?S"
        using ih Some by (auto simp: feeds_def)
      then show ?thesis unfolding res using ih by auto
    qed
  qed
next
  case (2 g usedNodes)
  show ?case by simp
next
  case (3 g input rest usedNodes)
  show ?case
  proof (cases "input_source g input")
    case None
    let ?S = "findConnectedInputs g rest usedNodes"
    have res: "findConnectedInputs g (input # rest) usedNodes = ?S"
      using None by (simp only: findConnectedInputs_Cons option.case)
    have ih: "usedNodes \<subseteq> ?S
        \<and> (\<forall>p\<in>set rest. \<forall>b. input_source g p = Some b \<longrightarrow> b \<in> ?S)
        \<and> (\<forall>a\<in>?S - usedNodes. feeds g `` {a} \<subseteq> ?S)"
    proof (cases "find (\<lambda>c. conn_to c = port_id input) (connections g)")
      case None
      then show ?thesis by (rule "3.IH"(1))
    next
      case found: (Some c)
      show ?thesis
      proof (cases "getNodeIdFromPortId g (conn_from c)")
        case None
        then show ?thesis using found by (intro "3.IH"(2))
      next
        case (Some b)
        then have "b = 0" using \<open>input_source g input = None\<close> found
          by (simp add: input_source_def split: if_splits)
        then show ?thesis using found Some by (intro "3.IH"(3))
      qed
    qed
    show ?thesis unfolding res using ih None by auto
  next
    case (Some b)
    then obtain c where found: "find (\<lambda>c. conn_to c = port_id input) (connections g) = Some c"
      and src: "getNodeIdFromPortId g (conn_from c) = Some b" and b: "b \<noteq> 0"
      by (auto simp: input_source_def split: option.splits if_splits)
    let ?S' = "findConnectedNodes g b usedNodes"
    let ?S = "findConnectedInputs g rest ?S'"
    have res: "findConnectedInputs g (input # rest) usedNodes = ?S"
      using Some by (simp only: findConnectedInputs_Cons option.case)
    note ih1 = "3.IH"(4) [OF found src b] and ih2 = "3.IH"(5) [OF found src b]
    have sub: "usedNodes \<subseteq> ?S" and bin: "b \<in> ?S" using ih1 ih2 by auto
    have rest: "\<forall>p\<in>set rest. \<forall>b. input_source g p = Some b \<longrightarrow> b \<in> ?S"
      using ih2 by blast
    have closed: "feeds g `` {a} \<subseteq> ?S" if "a \<in> ?S - usedNodes" for a
    proof (cases "a \<in> ?S'")
      case True
      then have "feeds g `` {a} \<subseteq> ?S'" using ih1 that by blast
      then show ?thesis using ih2 by blast
    next
      case False
      then show ?thesis using ih2 that by blast
    qed
    show ?thesis unfolding res using sub bin rest closed Some by auto
  qed
qed


lemma findConnected_sound:
  "findConnectedNodes g k U \<subseteq> U \<union> (feeds g)\<^sup>* `` {k}"
  "findConnectedInputs g ps U
     \<subseteq> U \<union> (feeds g)\<^sup>* `` {b. \<exists>p \<in> set ps. input_source g p = Some b}"
proof (induction g k U and g ps U rule: findConnectedNodes_findConnectedInputs.induct)
  case (1 g nodeId usedNodes)
  show ?case
  proof (cases "nodeId \<in> usedNodes")
    case True
    then have "findConnectedNodes g nodeId usedNodes = usedNodes"
      by (subst findConnectedNodes.simps) simp
    then show ?thesis by simp
  next
    case False
    show ?thesis
    proof (cases "find (\<lambda>n. node_id n = nodeId) (nodes g)")
      case None
      then have "findConnectedNodes g nodeId usedNodes = insert nodeId usedNodes"
        using False by (subst findConnectedNodes.simps) simp
      then show ?thesis by auto
    next
      case (Some n)
      let ?S = "findConnectedInputs g (node_inputs n) (insert nodeId usedNodes)"
      have res: "findConnectedNodes g nodeId usedNodes = ?S"
        using False Some by (subst findConnectedNodes.simps) simp
      note ih = "1.IH" [OF False refl Some]
      have step: "{b. \<exists>p \<in> set (node_inputs n). input_source g p = Some b} \<subseteq> feeds g `` {nodeId}"
        using Some by (auto simp: feeds_def)
      have "(feeds g)\<^sup>* `` {b. \<exists>p \<in> set (node_inputs n). input_source g p = Some b}
              \<subseteq> (feeds g)\<^sup>* `` {nodeId}"
        using step by (auto intro: converse_rtrancl_into_rtrancl)
      then show ?thesis unfolding res using ih by blast
    qed
  qed
next
  case (2 g usedNodes)
  show ?case by simp
next
  case (3 g input rest usedNodes)
  show ?case
  proof (cases "input_source g input")
    case None
    let ?S = "findConnectedInputs g rest usedNodes"
    have res: "findConnectedInputs g (input # rest) usedNodes = ?S"
      using None by (simp only: findConnectedInputs_Cons option.case)
    have ih: "?S \<subseteq> usedNodes \<union> (feeds g)\<^sup>* `` {b. \<exists>p \<in> set rest. input_source g p = Some b}"
    proof (cases "find (\<lambda>c. conn_to c = port_id input) (connections g)")
      case None
      then show ?thesis by (rule "3.IH"(1))
    next
      case found: (Some c)
      show ?thesis
      proof (cases "getNodeIdFromPortId g (conn_from c)")
        case None
        then show ?thesis using found by (intro "3.IH"(2))
      next
        case (Some b)
        then have "b = 0" using \<open>input_source g input = None\<close> found
          by (simp add: input_source_def split: if_splits)
        then show ?thesis using found Some by (intro "3.IH"(3))
      qed
    qed
    show ?thesis unfolding res using ih by auto
  next
    case (Some b)
    then obtain c where found: "find (\<lambda>c. conn_to c = port_id input) (connections g) = Some c"
      and src: "getNodeIdFromPortId g (conn_from c) = Some b" and b: "b \<noteq> 0"
      by (auto simp: input_source_def split: option.splits if_splits)
    let ?S' = "findConnectedNodes g b usedNodes"
    let ?S = "findConnectedInputs g rest ?S'"
    have res: "findConnectedInputs g (input # rest) usedNodes = ?S"
      using Some by (simp only: findConnectedInputs_Cons option.case)
    note ih1 = "3.IH"(4) [OF found src b] and ih2 = "3.IH"(5) [OF found src b]
    show ?thesis unfolding res using ih1 ih2 Some by auto
  qed
qed

lemma findConnectedNodes_reachable:
  "findConnectedNodes g k {} = (feeds g)\<^sup>* `` {k}"
proof
  show "findConnectedNodes g k {} \<subseteq> (feeds g)\<^sup>* `` {k}"
    using findConnected_sound(1) [of g k "{}"] by simp
next
  let ?S = "findConnectedNodes g k {}"
  have k: "k \<in> ?S" and closed: "\<forall>a \<in> ?S. feeds g `` {a} \<subseteq> ?S"
    using findConnected_closed(1) [of "{}" g k] by auto
  have "b \<in> ?S" if "(k, b) \<in> (feeds g)\<^sup>*" for b
    using that
  proof (induction rule: rtrancl_induct)
    case base
    show ?case by (rule k)
  next
    case (step y z)
    then show ?case using closed by blast
  qed
  then show "(feeds g)\<^sup>* `` {k} \<subseteq> ?S" by auto
qed

lemma used_nodes_reachable:
  "used_nodes g =
     (case getOutputNode g of None \<Rightarrow> {} | Some out \<Rightarrow> (feeds g)\<^sup>* `` {node_id out})"
  by (simp add: used_nodes_def findConnectedNodes_reachable split: option.splits)

lemma used_nodes_orphan: "used_nodes orphan_graph = {1, 2}"
proof -
  have out: "getOutputNode orphan_graph = Some (new_node 1 ''terrain-output'')"
    by (simp add: getOutputNode_def orphan_graph_def)
  have "findConnectedNodes orphan_graph 1 {} = {1, 2}"
    by (simp add: findConnectedNodes.simps orphan_graph_def layout_eval parse_eval Let_def)
      auto
  then show ?thesis by (simp add: used_nodes_def out)
qed

lemma validateGraph_orphan:
  "validateGraph orphan_graph
     = Inr \<lparr>valid = False, errors = [''Node 3 (terrain-type) is not connected to the output'']\<rparr>"
proof -
  have out: "output_errors orphan_graph = Inr []"
    by (simp add: output_errors_def getOutputNode_def orphan_graph_def layout_eval)
  have dis: "disconnected_errors orphan_graph (nodes orphan_graph) = []"
    by (simp add: orphan_graph_def layout_eval)
  have un: "unused_errors (used_nodes orphan_graph) (nodes orphan_graph)
              = [''Node 3 (terrain-type) is not connected to the output'']"
    by (simp add: used_nodes_orphan)
      (simp add: orphan_graph_def unused_message_def string_of_nat_eval)
  show ?thesis by (simp add: validateGraph_def out dis un)
qed

text \<open>
  Claim C3 (unreachable nodes are warnings that do not block compilation) fails: in
  \<open>orphan_graph\<close> the output is fed and every required input is connected, the only
  finding is the unreachable node \<open>3\<close>; it is put into \<open>errors\<close>, the result is
  invalid, and \<open>exportToLua\<close> returns no code.
\<close>

theorem unreachable_node_blocks_export:
  "validateGraph orphan_graph
     = Inr \<lparr>valid = False, errors = [''Node 3 (terrain-type) is not connected to the output'']\<rparr>
   \<and> exportToLua stub_generate orphan_graph
     = Inr \<lparr>ex_code = None, ex_valid = False,
            ex_errors = [''Node 3 (terrain-type) is not connected to the output''],
            ex_warnings = None\<rparr>"
  by (simp add: validateGraph_orphan exportToLua_def)

lemma unused_errors_mem:
  "n \<in> set ns \<Longrightarrow> node_id n \<notin> U \<Longrightarrow> node_type n \<noteq> ''terrain-output''
     \<Longrightarrow> unused_message n \<in> set (unused_errors U ns)"
  by (induction ns) auto

text \<open>
  Claim C3 as amended. The validation result has the two fields \<open>valid\<close> and
  \<open>errors\<close>. A node other than the terrain output that cannot be reached from the
  terrain output by following connections backward (every node, when there is no
  terrain output) is reported in \<open>errors\<close>; the result is then invalid, and
  \<open>exportToLua\<close> returns the errors and no code.
\<close>

theorem unreachable_node_is_error:
  assumes "validateGraph g = Inr v"
    and "n \<in> set (nodes g)"
    and "node_type n \<noteq> ''terrain-output''"
    and "\<forall>out. getOutputNode g = Some out \<longrightarrow> (node_id out, node_id n) \<notin> (feeds g)\<^sup>*"
  shows "unused_message n \<in> set (errors v)
       \<and> \<not> valid v
       \<and> exportToLua generate g
           = Inr \<lparr>ex_code = None, ex_valid = False, ex_errors = errors v, ex_warnings = None\<rparr>"
proof -
  from assms(1) obtain errors1 where
    v: "v = \<lparr>valid = (errors1 @ disconnected_errors g (nodes g)
                        @ unused_errors (used_nodes g) (nodes g) = []),
             errors = errors1 @ disconnected_errors g (nodes g)
                        @ unused_errors (used_nodes g) (nodes g)\<rparr>"
    by (auto simp: validateGraph_def Let_def split: sum.splits)
  have "node_id n \<notin> used_nodes g"
    using assms(4) by (auto simp: used_nodes_reachable split: option.splits)
  then have m: "unused_message n \<in> set (unused_errors (used_nodes g) (nodes g))"
    using assms(2,3) by (intro unused_errors_mem)
  then have "unused_message n \<in> set (errors v)" and "\<not> valid v"
    by (auto simp: v)
  then show ?thesis using assms(1) by (simp add: exportToLua_def)
qed

theorem unreachable_node_is_error_witness:
  "new_node 3 ''terrain-type'' \<in> set (nodes orphan_graph)
   \<and> node_type (new_node 3 ''terrain-type'') \<noteq> ''terrain-output''
   \<and> getOutputNode orphan_graph = Some (new_node 1 ''terrain-output'')
   \<and> (node_id (new_node 1 ''terrain-output''), node_id (new_node 3 ''terrain-type''))
        \<notin> (feeds orphan_graph)\<^sup>*
   \<and> unused_message (new_node 3 ''terrain-type'')
        = ''Node 3 (terrain-type) is not connected to the output''
   \<and> exportToLua stub_generate orphan_graph
       = Inr \<lparr>ex_code = None, ex_valid = False,
              ex_errors = [''Node 3 (terrain-type) is not connected to the output''],
              ex_warnings = None\<rparr>"
proof -
  have mem: "new_node 3 ''terrain-type'' \<in> set (nodes orphan_graph)"
    by (simp add: orphan_graph_def)
  have ty: "node_type (new_node 3 ''terrain-type'') \<noteq> ''terrain-output''" by simp
  have out: "getOutputNode orphan_graph = Some (new_node 1 ''terrain-output'')"
    by (simp add: getOutputNode_def orphan_graph_def)
  have img: "(feeds orphan_graph)\<^sup>* `` {1} = {1, 2}"
    using used_nodes_orphan by (simp add: used_nodes_reachable out)
  have unreach: "(1, 3) \<notin> (feeds orphan_graph)\<^sup>*"
  proof
    assume "(1, 3) \<in> (feeds orphan_graph)\<^sup>*"
    then have "(3::nat) \<in> (feeds orphan_graph)\<^sup>* `` {1}" by (rule ImageI) simp
    then show False unfolding img by simp
  qed
  then have hyp: "\<forall>out. getOutputNode orphan_graph = Some out \<longrightarrow>
      (node_id out, node_id (new_node 3 ''terrain-type'')) \<notin> (feeds orphan_graph)\<^sup>*"
    by (simp add: out)
  have msg: "unused_message (new_node 3 ''terrain-type'')
        = ''Node 3 (terrain-type) is not connected to the output''"
    by (simp add: unused_message_def string_of_nat_eval)
  show ?thesis
    using unreachable_node_is_error [OF validateGraph_orphan mem ty hyp, of stub_generate]
      mem ty out unreach msg
    by simp
qed

end
